theory Spec2Isabelle
  imports Main "HOL-Library.Word" "HOL-Library.Multiset"
begin

unbundle bit_operations_syntax

section \<open>Common notions\<close>

text \<open>
  The ways the compiler stops instead of returning:
  \<^item> \<open>AssertionFailed\<close>: an \<^verbatim>\<open>assert\<close> or a checked \<^verbatim>\<open>cast<>\<close> of the source does not hold;
  \<^item> \<open>FatalError\<close>: \<^verbatim>\<open>report_fatal_error\<close> with its message;
  \<^item> \<open>FatalCannotConvert from to name\<close>: \<^verbatim>\<open>report_fatal_error\<close> with the message that an
    argument of type \<open>from\<close> cannot be converted to \<open>to\<close> for the intrinsic \<open>name\<close>;
  \<^item> \<open>Unreachable\<close>: \<^verbatim>\<open>llvm_unreachable\<close> with its message.
\<close>

type_synonym u32 = "32 word"
type_synonym u64 = "64 word"

datatype ty =
    VoidTy
  | IntegerTy nat
  | FloatTy
  | PointerTy nat
  | ArrayTy ty nat
  | StructTy "ty list"

datatype error =
    AssertionFailed string
  | FatalError string
  | FatalCannotConvert ty ty string
  | Unreachable string

section \<open>lgc/patch/LowerGpuRt.cpp\<close>

subsection \<open>Pipeline state and the module\<close>

record ComputeShaderMode =
  workgroupSizeX :: u32
  workgroupSizeY :: u32
  workgroupSizeZ :: u32

record Options =
  rtBoxSortHeuristicMode :: u32
  rtStaticPipelineFlags :: u32
  rtTriCompressMode :: u32

record PipelineState =
  isGraphics :: bool
  computeShaderMode :: ComputeShaderMode
  gfxIpMajor :: u32
  options :: Options

datatype BuiltInKind = BuiltInSubgroupLocalInvocationId | BuiltInLocalInvocationIndex

text \<open>
  Values of the module. \<open>OperandV\<close> is a value the pass did not create, \<open>CallResult c\<close>
  the result of the dialect call \<open>c\<close>; the other constructors are what the builder
  creates (\<open>CreateAnd\<close>, \<open>CreateGEP\<close>, ...), kept as expressions over their operands.
  \<open>InlineCall g args\<close> is the value returned by the inlined body of the function \<open>g\<close>
  (\<^verbatim>\<open>Inliner.inlineCall(B, g, args).returnValue\<close>).
\<close>

datatype val =
    OperandV nat
  | CallResult nat
  | ConstInt32 u32
  | GlobalPtr string
  | NullPtr
  | ReadBuiltInInput BuiltInKind
  | CreateAnd val val
  | CreateLShr val val
  | CreateMul val val
  | CreateAdd val val
  | CreateShl val val
  | CreateGEP ty val "val list"
  | CreateLoad ty val
  | CreatePtrToInt val ty
  | CreateIntrinsic string "val list"
  | CreateExtractValue val nat
  | CreateIntToPtr val ty
  | CreateInBoundsGEP ty val "val list"
  | CreateZExt val ty
  | CreateAlloca ty
  | CreateCall string "val list"
  | InlineCall string "val list"

text \<open>The operations of the gpurt dialect that the pass visits, with their operands.\<close>

datatype GpurtOp =
    GpurtGetStackSizeOp
  | GpurtGetStackBaseOp
  | GpurtGetStackStrideOp
  | GpurtStackWriteOp val val bool
  | GpurtStackReadOp val bool
  | GpurtLdsStackInitOp
  | GpurtLdsStackStoreOp val val val
  | GpurtGetBoxSortHeuristicModeOp
  | GpurtGetStaticFlagsOp
  | GpurtGetTriangleCompressionModeOp
  | GpurtGetFlattenedGroupThreadIdOp

text \<open>
  An instruction of the module: a call of a dialect operation (its own id, the id of
  the called declaration, the operation), a store the builder created, or any other
  instruction with its operands.
\<close>

datatype minstr =
    DialectCall nat nat GpurtOp
  | CreateStore val val
  | OtherInstr nat "val list"

record GlobalVariable =
  gvName :: string
  gvValueType :: ty
  gvAddrSpace :: nat
  gvAlignment :: nat

record Module =
  mGlobals :: "GlobalVariable list"
  mFunctions :: "nat list"
  mBody :: "minstr list"

datatype PreservedAnalyses = PreservedAll | PreservedNone

record LowerGpuRt =
  m_stack :: "GlobalVariable option"
  m_stackTy :: "ty option"
  m_callsToLower :: "nat list"
  m_funcsToLower :: "nat list"

text \<open>
  Modelled from the spec: the constant \<^verbatim>\<open>MaxLdsStackEntries\<close> is declared in a header that
  is not among the sources; the spec gives the fixed per-thread entry count as 16, and
  \<^verbatim>\<open>visitLdsStackStore\<close> asserts that value.
\<close>

definition MaxLdsStackEntries :: u32 where
  "MaxLdsStackEntries = 16"

text \<open>
  \<^verbatim>\<open>llvm::Log2_32\<close>: the floor of the binary logarithm of a 32-bit value, and
  \<open>-1\<close> (all bits set) for 0.
\<close>

fun floorLog2 :: "nat \<Rightarrow> nat" where
  "floorLog2 n = (if n < 2 then 0 else Suc (floorLog2 (n div 2)))"

definition Log2_32 :: "u32 \<Rightarrow> u32" where
  "Log2_32 v = (if v = 0 then - 1 else word_of_nat (floorLog2 (unat v)))"

text \<open>
  \<^verbatim>\<open>llvm::alignTo(Value, Align)\<close> on 64-bit unsigned integers:
  \<^verbatim>\<open>(Value + Align - 1) / Align * Align\<close>.
\<close>

definition alignTo :: "u64 \<Rightarrow> u64 \<Rightarrow> u64" where
  "alignTo v a = (v + a - 1) div a * a"

subsection \<open>Replacing the uses of a value\<close>

fun subst_val :: "nat \<Rightarrow> val \<Rightarrow> val \<Rightarrow> val" where
  "subst_val c r (OperandV n) = OperandV n"
| "subst_val c r (CallResult d) = (if d = c then r else CallResult d)"
| "subst_val c r (ConstInt32 w) = ConstInt32 w"
| "subst_val c r (GlobalPtr s) = GlobalPtr s"
| "subst_val c r NullPtr = NullPtr"
| "subst_val c r (ReadBuiltInInput k) = ReadBuiltInInput k"
| "subst_val c r (CreateAnd a b) = CreateAnd (subst_val c r a) (subst_val c r b)"
| "subst_val c r (CreateLShr a b) = CreateLShr (subst_val c r a) (subst_val c r b)"
| "subst_val c r (CreateMul a b) = CreateMul (subst_val c r a) (subst_val c r b)"
| "subst_val c r (CreateAdd a b) = CreateAdd (subst_val c r a) (subst_val c r b)"
| "subst_val c r (CreateShl a b) = CreateShl (subst_val c r a) (subst_val c r b)"
| "subst_val c r (CreateGEP t p ixs) = CreateGEP t (subst_val c r p) (map (subst_val c r) ixs)"
| "subst_val c r (CreateLoad t p) = CreateLoad t (subst_val c r p)"
| "subst_val c r (CreatePtrToInt p t) = CreatePtrToInt (subst_val c r p) t"
| "subst_val c r (CreateIntrinsic n args) = CreateIntrinsic n (map (subst_val c r) args)"
| "subst_val c r (CreateExtractValue a i) = CreateExtractValue (subst_val c r a) i"
| "subst_val c r (CreateIntToPtr a t) = CreateIntToPtr (subst_val c r a) t"
| "subst_val c r (CreateInBoundsGEP t p ixs) =
     CreateInBoundsGEP t (subst_val c r p) (map (subst_val c r) ixs)"
| "subst_val c r (CreateZExt a t) = CreateZExt (subst_val c r a) t"
| "subst_val c r (CreateAlloca t) = CreateAlloca t"
| "subst_val c r (CreateCall n args) = CreateCall n (map (subst_val c r) args)"
| "subst_val c r (InlineCall n args) = InlineCall n (map (subst_val c r) args)"

fun subst_op :: "nat \<Rightarrow> val \<Rightarrow> GpurtOp \<Rightarrow> GpurtOp" where
  "subst_op c r (GpurtStackWriteOp i v e) = GpurtStackWriteOp (subst_val c r i) (subst_val c r v) e"
| "subst_op c r (GpurtStackReadOp i e) = GpurtStackReadOp (subst_val c r i) e"
| "subst_op c r (GpurtLdsStackStoreOp n o' d) =
     GpurtLdsStackStoreOp (subst_val c r n) (subst_val c r o') (subst_val c r d)"
| "subst_op c r op = op"

fun subst_instr :: "nat \<Rightarrow> val \<Rightarrow> minstr \<Rightarrow> minstr" where
  "subst_instr c r (DialectCall i f op) = DialectCall i f (subst_op c r op)"
| "subst_instr c r (CreateStore v p) = CreateStore (subst_val c r v) (subst_val c r p)"
| "subst_instr c r (OtherInstr i ops) = OtherInstr i (map (subst_val c r) ops)"

text \<open>\<^verbatim>\<open>inst.replaceAllUsesWith(v)\<close>: every operand that is the call's result becomes \<open>v\<close>.\<close>

definition replaceAllUsesWith :: "nat \<Rightarrow> val \<Rightarrow> minstr list \<Rightarrow> minstr list" where
  "replaceAllUsesWith c r b = map (subst_instr c r) b"

fun isCall :: "nat \<Rightarrow> minstr \<Rightarrow> bool" where
  "isCall c (DialectCall i f op) = (i = c)"
| "isCall c _ = False"

text \<open>The builder's insert point is the call: new instructions go right before it.\<close>

fun insertBefore :: "nat \<Rightarrow> minstr list \<Rightarrow> minstr list \<Rightarrow> minstr list" where
  "insertBefore c new [] = []"
| "insertBefore c new (i # rest) = (if isCall c i then new @ i # rest else i # insertBefore c new rest)"

subsection \<open>The pass\<close>

text \<open>
  \<^verbatim>\<open>LowerGpuRt::getWorkgroupSize\<close>. The product of the three dimensions is an
  \<^verbatim>\<open>unsigned\<close> product; \<^verbatim>\<open>alignTo\<close> computes on 64 bits and its result is
  narrowed to \<^verbatim>\<open>unsigned\<close> again.
\<close>

definition getWorkgroupSize :: "PipelineState \<Rightarrow> error + u32" where
  "getWorkgroupSize ps =
     (let mode = computeShaderMode ps;
          workgroupSize =
            (if isGraphics ps then 64
             else workgroupSizeX mode * workgroupSizeY mode * workgroupSizeZ mode)
      in if workgroupSize = 0 then Inl (AssertionFailed ''workgroupSize != 0'')
         else if 11 \<le> gfxIpMajor ps
           then Inr (ucast (alignTo (ucast workgroupSize) 32))
           else Inr workgroupSize)"

text \<open>\<^verbatim>\<open>LowerGpuRt::getThreadIdInGroup\<close>.\<close>

definition getThreadIdInGroup :: "PipelineState \<Rightarrow> val" where
  "getThreadIdInGroup ps =
     ReadBuiltInInput
       (if isGraphics ps then BuiltInSubgroupLocalInvocationId else BuiltInLocalInvocationIndex)"

text \<open>
  The payload of the visitor in \<^verbatim>\<open>createGlobalStack\<close>: stack writes and stack reads set
  \<open>needGlobalStack\<close> and accumulate \<open>needExtraStack\<close>; the stack initialisation sets
  \<open>needGlobalStack\<close>; no other operation has a case.
\<close>

fun payloadVisit :: "bool \<times> bool \<Rightarrow> minstr \<Rightarrow> bool \<times> bool" where
  "payloadVisit (g, e) (DialectCall i f (GpurtStackWriteOp ix v x)) = (True, e \<or> x)"
| "payloadVisit (g, e) (DialectCall i f (GpurtStackReadOp ix x)) = (True, e \<or> x)"
| "payloadVisit (g, e) (DialectCall i f GpurtLdsStackInitOp) = (True, e)"
| "payloadVisit (g, e) _ = (g, e)"

definition needGlobalStack :: "Module \<Rightarrow> bool" where
  "needGlobalStack m = fst (foldl payloadVisit (False, False) (mBody m))"

definition needExtraStack :: "Module \<Rightarrow> bool" where
  "needExtraStack m = snd (foldl payloadVisit (False, False) (mBody m))"

text \<open>\<^verbatim>\<open>LowerGpuRt::createGlobalStack\<close>.\<close>

definition createGlobalStack ::
  "PipelineState \<Rightarrow> LowerGpuRt \<times> Module \<Rightarrow> error + LowerGpuRt \<times> Module" where
  "createGlobalStack ps sm =
     (case sm of (st, m) \<Rightarrow>
       if needGlobalStack m then
         (case getWorkgroupSize ps of
            Inl e \<Rightarrow> Inl e
          | Inr w \<Rightarrow>
             (let ldsStackSize0 = w * MaxLdsStackEntries;
                  ldsStackSize = (if needExtraStack m then push_bit 1 ldsStackSize0 else ldsStackSize0);
                  stackTy = ArrayTy (IntegerTy 32) (unat ldsStackSize);
                  ldsStack = \<lparr>gvName = ''LdsStack'', gvValueType = stackTy,
                              gvAddrSpace = 3, gvAlignment = 4\<rparr>
              in Inr (st\<lparr>m_stack := Some ldsStack, m_stackTy := Some stackTy\<rparr>,
                      m\<lparr>mGlobals := mGlobals m @ [ldsStack]\<rparr>)))
       else Inr (st, m))"

text \<open>
  The tail every visit function shares: replace the uses of the call by the new value,
  remember the call and the called declaration for erasure.
\<close>

definition lowerCall ::
  "nat \<Rightarrow> nat \<Rightarrow> minstr list \<Rightarrow> val \<Rightarrow> LowerGpuRt \<times> Module \<Rightarrow> LowerGpuRt \<times> Module" where
  "lowerCall c f new r sm =
     (case sm of (st, m) \<Rightarrow>
       (st\<lparr>m_callsToLower := m_callsToLower st @ [c],
           m_funcsToLower := (if f \<in> set (m_funcsToLower st) then m_funcsToLower st
                              else m_funcsToLower st @ [f])\<rparr>,
        m\<lparr>mBody := replaceAllUsesWith c r (insertBefore c new (mBody m))\<rparr>))"

definition stackPtr :: "LowerGpuRt \<Rightarrow> val" where
  "stackPtr st = (case m_stack st of None \<Rightarrow> NullPtr | Some g \<Rightarrow> GlobalPtr (gvName g))"

definition stackTyOf :: "LowerGpuRt \<Rightarrow> ty" where
  "stackTyOf st = (case m_stackTy st of None \<Rightarrow> VoidTy | Some t \<Rightarrow> t)"

text \<open>
  The index computed by \<^verbatim>\<open>visitLdsStackInit\<close> before it is turned into an address:
  the thread id, swizzled in groups of 32 threads when the workgroup has more than 32.
\<close>

definition stackBasePerThread :: "PipelineState \<Rightarrow> u32 \<Rightarrow> val" where
  "stackBasePerThread ps w =
     (let tid = getThreadIdInGroup ps in
      if 32 < w then
        (let localThreadId = CreateAnd tid (ConstInt32 31);
             localGroupId = CreateLShr tid (ConstInt32 5);
             stackSize = ConstInt32 (MaxLdsStackEntries * 32);
             groupOf32ThreadSize = CreateMul localGroupId stackSize
         in CreateAdd localThreadId groupOf32ThreadSize)
      else tid)"

text \<open>
  The visit functions, one case per operation: what is inserted before the call and
  the value that replaces it.
\<close>

fun visitOp ::
  "PipelineState \<Rightarrow> LowerGpuRt \<Rightarrow> GpurtOp \<Rightarrow> error + minstr list \<times> val" where
  "visitOp ps st GpurtGetStackSizeOp =
     (case getWorkgroupSize ps of Inl e \<Rightarrow> Inl e
      | Inr w \<Rightarrow> Inr ([], ConstInt32 (MaxLdsStackEntries * w)))"
| "visitOp ps st GpurtGetStackBaseOp = Inr ([], getThreadIdInGroup ps)"
| "visitOp ps st GpurtGetStackStrideOp =
     (case getWorkgroupSize ps of Inl e \<Rightarrow> Inl e | Inr w \<Rightarrow> Inr ([], ConstInt32 w))"
| "visitOp ps st (GpurtStackReadOp index useExtraStack) =
     (if useExtraStack then
        (case getWorkgroupSize ps of Inl e \<Rightarrow> Inl e
         | Inr w \<Rightarrow>
            Inr ([], CreateLoad (IntegerTy 32)
                       (CreateGEP (PointerTy 3) (stackPtr st)
                          [CreateAdd index (ConstInt32 (w * MaxLdsStackEntries))])))
      else Inr ([], CreateLoad (IntegerTy 32) (CreateGEP (PointerTy 3) (stackPtr st) [index])))"
| "visitOp ps st (GpurtStackWriteOp index data useExtraStack) =
     (if useExtraStack then
        (case getWorkgroupSize ps of Inl e \<Rightarrow> Inl e
         | Inr w \<Rightarrow>
            Inr ([CreateStore data
                    (CreateGEP (PointerTy 3) (stackPtr st)
                       [CreateAdd index (ConstInt32 (w * MaxLdsStackEntries))])],
                 ConstInt32 0))
      else Inr ([CreateStore data (CreateGEP (PointerTy 3) (stackPtr st) [index])], ConstInt32 0))"
| "visitOp ps st GpurtLdsStackInitOp =
     (case getWorkgroupSize ps of Inl e \<Rightarrow> Inl e
      | Inr w \<Rightarrow>
         Inr ([], CreateShl
                    (CreatePtrToInt
                       (CreateGEP (stackTyOf st) (stackPtr st)
                          [ConstInt32 0, stackBasePerThread ps w])
                       (IntegerTy 32))
                    (ConstInt32 16)))"
| "visitOp ps st (GpurtLdsStackStoreOp stackAddr lastVisited data) =
     (if MaxLdsStackEntries \<noteq> 16 then Inl (AssertionFailed ''MaxLdsStackEntries == 16'')
      else
        (let stackAddrVal = CreateLoad (IntegerTy 32) stackAddr;
             offset = ConstInt32 (push_bit 12 (Log2_32 MaxLdsStackEntries - 3));
             result = CreateIntrinsic ''amdgcn_ds_bvh_stack_rtn'' [stackAddrVal, lastVisited, data, offset]
         in Inr ([CreateStore (CreateExtractValue result 1) stackAddr],
                 CreateExtractValue result 0)))"
| "visitOp ps st GpurtGetBoxSortHeuristicModeOp =
     Inr ([], ConstInt32 (rtBoxSortHeuristicMode (options ps)))"
| "visitOp ps st GpurtGetStaticFlagsOp =
     Inr ([], ConstInt32 (rtStaticPipelineFlags (options ps)))"
| "visitOp ps st GpurtGetTriangleCompressionModeOp =
     Inr ([], ConstInt32 (rtTriCompressMode (options ps)))"
| "visitOp ps st GpurtGetFlattenedGroupThreadIdOp = Inr ([], getThreadIdInGroup ps)"

fun findCall :: "nat \<Rightarrow> minstr list \<Rightarrow> (nat \<times> GpurtOp) option" where
  "findCall c [] = None"
| "findCall c (DialectCall i f op # rest) = (if i = c then Some (f, op) else findCall c rest)"
| "findCall c (_ # rest) = findCall c rest"

text \<open>One step of the visitor: the call \<open>c\<close>, as it stands in the module now.\<close>

definition visitCall ::
  "PipelineState \<Rightarrow> nat \<Rightarrow> LowerGpuRt \<times> Module \<Rightarrow> error + LowerGpuRt \<times> Module" where
  "visitCall ps c sm =
     (case findCall c (mBody (snd sm)) of
        None \<Rightarrow> Inr sm
      | Some (f, op) \<Rightarrow>
         (case visitOp ps (fst sm) op of
            Inl e \<Rightarrow> Inl e
          | Inr (new, r) \<Rightarrow> Inr (lowerCall c f new r sm)))"

fun visitAll ::
  "PipelineState \<Rightarrow> nat list \<Rightarrow> LowerGpuRt \<times> Module \<Rightarrow> error + LowerGpuRt \<times> Module" where
  "visitAll ps [] sm = Inr sm"
| "visitAll ps (c # cs) sm =
     (case visitCall ps c sm of Inl e \<Rightarrow> Inl e | Inr sm' \<Rightarrow> visitAll ps cs sm')"

fun callIds :: "minstr list \<Rightarrow> nat list" where
  "callIds [] = []"
| "callIds (DialectCall i f op # rest) = i # callIds rest"
| "callIds (_ # rest) = callIds rest"

text \<open>The pass object as constructed: nothing to lower yet, no stack.\<close>

definition newLowerGpuRt :: LowerGpuRt where
  "newLowerGpuRt = \<lparr>m_stack = None, m_stackTy = None, m_callsToLower = [], m_funcsToLower = []\<rparr>"

text \<open>
  \<^verbatim>\<open>LowerGpuRt::run\<close>: create the stack, visit every dialect call, erase the lowered
  calls and the declarations they called, and report the preserved analyses.
\<close>

definition eraseCalls :: "nat list \<Rightarrow> minstr list \<Rightarrow> minstr list" where
  "eraseCalls cs b = filter (\<lambda>i. \<not> list_ex (\<lambda>c. isCall c i) cs) b"

definition run ::
  "PipelineState \<Rightarrow> LowerGpuRt \<Rightarrow> Module \<Rightarrow> error + PreservedAnalyses \<times> LowerGpuRt \<times> Module" where
  "run ps st m =
     (case createGlobalStack ps (st, m) of
        Inl e \<Rightarrow> Inl e
      | Inr sm1 \<Rightarrow>
         (case visitAll ps (callIds (mBody (snd sm1))) sm1 of
            Inl e \<Rightarrow> Inl e
          | Inr (st2, m2) \<Rightarrow>
             (let m3 = m2\<lparr>mBody := eraseCalls (m_callsToLower st2) (mBody m2),
                          mFunctions := filter (\<lambda>f. f \<notin> set (m_funcsToLower st2)) (mFunctions m2)\<rparr>
              in Inr (if m_callsToLower st2 \<noteq> [] then PreservedAll else PreservedNone, st2, m3))))"

text \<open>
  The meaning of the integer expressions the builder creates, for given values of the
  built-in inputs: 32-bit arithmetic that wraps around. A shift by 32 or more has no
  value.
\<close>

fun evalInt :: "(BuiltInKind \<Rightarrow> u32) \<Rightarrow> val \<Rightarrow> u32 option" where
  "evalInt env (ConstInt32 w) = Some w"
| "evalInt env (ReadBuiltInInput k) = Some (env k)"
| "evalInt env (CreateAnd a b) =
     (case (evalInt env a, evalInt env b) of (Some x, Some y) \<Rightarrow> Some (x AND y) | _ \<Rightarrow> None)"
| "evalInt env (CreateLShr a b) =
     (case (evalInt env a, evalInt env b) of
        (Some x, Some y) \<Rightarrow> if y < 32 then Some (drop_bit (unat y) x) else None
      | _ \<Rightarrow> None)"
| "evalInt env (CreateMul a b) =
     (case (evalInt env a, evalInt env b) of (Some x, Some y) \<Rightarrow> Some (x * y) | _ \<Rightarrow> None)"
| "evalInt env (CreateAdd a b) =
     (case (evalInt env a, evalInt env b) of (Some x, Some y) \<Rightarrow> Some (x + y) | _ \<Rightarrow> None)"
| "evalInt env (CreateShl a b) =
     (case (evalInt env a, evalInt env b) of
        (Some x, Some y) \<Rightarrow> if y < 32 then Some (push_bit (unat y) x) else None
      | _ \<Rightarrow> None)"
| "evalInt env _ = None"

subsection \<open>The capacity and the operations as the specification words them\<close>

text \<open>
  The operations that make \<^verbatim>\<open>createGlobalStack\<close> create the stack: stack reads, stack
  writes and the stack initialisation.
\<close>

fun isStackAccess :: "minstr \<Rightarrow> bool" where
  "isStackAccess (DialectCall i f (GpurtStackWriteOp ix v x)) = True"
| "isStackAccess (DialectCall i f (GpurtStackReadOp ix x)) = True"
| "isStackAccess (DialectCall i f GpurtLdsStackInitOp) = True"
| "isStackAccess _ = False"

text \<open>The operations that ask for the extra stack.\<close>

fun requestsExtraStack :: "minstr \<Rightarrow> bool" where
  "requestsExtraStack (DialectCall i f (GpurtStackWriteOp ix v x)) = x"
| "requestsExtraStack (DialectCall i f (GpurtStackReadOp ix x)) = x"
| "requestsExtraStack _ = False"

text \<open>
  The traversal-stack operations of the specification: push/pop, read, write and init.
\<close>

fun isTraversalStackOp :: "minstr \<Rightarrow> bool" where
  "isTraversalStackOp (DialectCall i f (GpurtStackWriteOp ix v x)) = True"
| "isTraversalStackOp (DialectCall i f (GpurtStackReadOp ix x)) = True"
| "isTraversalStackOp (DialectCall i f GpurtLdsStackInitOp) = True"
| "isTraversalStackOp (DialectCall i f (GpurtLdsStackStoreOp n o' d)) = True"
| "isTraversalStackOp _ = False"

text \<open>Rounding up to the next multiple of 32, on natural numbers.\<close>

definition roundUpTo32 :: "nat \<Rightarrow> nat" where
  "roundUpTo32 n = (n + 31) div 32 * 32"

text \<open>
  The workgroup size of the specification, on natural numbers (no wrap-around): 64 for
  graphics, the product of the three dimensions otherwise, rounded up to a multiple of
  32 when the major version is at least 11.
\<close>

definition exactWorkgroupSize :: "PipelineState \<Rightarrow> nat" where
  "exactWorkgroupSize ps =
     (let W = (if isGraphics ps then 64
               else unat (workgroupSizeX (computeShaderMode ps)) *
                    unat (workgroupSizeY (computeShaderMode ps)) *
                    unat (workgroupSizeZ (computeShaderMode ps)))
      in if 11 \<le> gfxIpMajor ps then roundUpTo32 W else W)"

text \<open>The capacity of the specification: 16 entries per thread, doubled for the extra stack.\<close>

definition exactCapacity :: "PipelineState \<Rightarrow> Module \<Rightarrow> nat" where
  "exactCapacity ps m =
     16 * exactWorkgroupSize ps * (if list_ex requestsExtraStack (mBody m) then 2 else 1)"

text \<open>The global \<^verbatim>\<open>LdsStack\<close> for a capacity: address space 3, alignment 4.\<close>

definition ldsStackGlobal :: "nat \<Rightarrow> GlobalVariable" where
  "ldsStackGlobal n =
     \<lparr>gvName = ''LdsStack'', gvValueType = ArrayTy (IntegerTy 32) n, gvAddrSpace = 3, gvAlignment = 4\<rparr>"

subsection \<open>Example pipelines and modules\<close>

text \<open>A compute pipeline with workgroup dimensions \<open>(x, 1, 1)\<close> on a given major version.\<close>

definition ps_compute :: "u32 \<Rightarrow> u32 \<Rightarrow> PipelineState" where
  "ps_compute x major =
     \<lparr>isGraphics = False,
      computeShaderMode = \<lparr>workgroupSizeX = x, workgroupSizeY = 1, workgroupSizeZ = 1\<rparr>,
      gfxIpMajor = major,
      options = \<lparr>rtBoxSortHeuristicMode = 0, rtStaticPipelineFlags = 0, rtTriCompressMode = 0\<rparr>\<rparr>"

text \<open>A module with one stack read on the extra stack, one with a push only, one with a plain stack read.\<close>

definition m_read_extra :: Module where
  "m_read_extra =
     \<lparr>mGlobals = [], mFunctions = [7],
      mBody = [DialectCall 0 7 (GpurtStackReadOp (OperandV 1) True), OtherInstr 2 [CallResult 0]]\<rparr>"

definition m_push_only :: Module where
  "m_push_only =
     \<lparr>mGlobals = [], mFunctions = [7],
      mBody = [DialectCall 0 7 (GpurtLdsStackStoreOp (OperandV 1) (OperandV 2) (OperandV 3))]\<rparr>"

definition m_read :: Module where
  "m_read =
     \<lparr>mGlobals = [], mFunctions = [7],
      mBody = [DialectCall 0 7 (GpurtStackReadOp (OperandV 1) False)]\<rparr>"

section \<open>continuations: helper functions of the continuation passes\<close>

subsection \<open>Instructions, values and functions\<close>

text \<open>
  A value is an argument of the function, the result of an instruction (by the
  instruction's id) or an integer constant with its bit width.
\<close>

datatype Value = ArgV nat | InstV nat | ConstIntV nat int

text \<open>
  The instructions the helpers tell apart, with the result type where there is one.
  \<^item> \<open>GetElementPtrInst t p idx c\<close>: pointer operand \<open>p\<close>, index operands \<open>idx\<close>, and \<open>c\<close> the
    result of \<^verbatim>\<open>accumulateConstantOffset\<close>: the byte offset when every index is constant.
  \<^item> \<open>LoadInst t p s\<close> and \<open>StoreInst v p s\<close>: \<open>s\<close> is \<^verbatim>\<open>isSimple()\<close> (neither volatile nor atomic);
    a store has the operands value, pointer in this order.
  \<^item> \<open>CallInst t l args\<close>: \<open>l\<close> is \<^verbatim>\<open>isLifetimeStartOrEnd()\<close>.
  \<^item> \<open>OtherInst\<close>: any other opcode.
\<close>

datatype Inst =
    GetElementPtrInst ty Value "Value list" "int option"
  | LoadInst ty Value bool
  | StoreInst Value Value bool
  | BitCastInst ty Value
  | AddrSpaceCastInst ty Value
  | PtrToIntInst ty Value
  | IntToPtrInst ty Value
  | AndInst ty Value Value
  | AddInst ty Value Value
  | SelectInst ty Value Value Value
  | CallInst ty bool "Value list"
  | OtherInst ty "Value list"

record Function =
  fnArgs :: "ty list"
  fnBody :: "(nat \<times> Inst) list"

fun operands :: "Inst \<Rightarrow> Value list" where
  "operands (GetElementPtrInst t p idx c) = p # idx"
| "operands (LoadInst t p s) = [p]"
| "operands (StoreInst v p s) = [v, p]"
| "operands (BitCastInst t v) = [v]"
| "operands (AddrSpaceCastInst t v) = [v]"
| "operands (PtrToIntInst t v) = [v]"
| "operands (IntToPtrInst t v) = [v]"
| "operands (AndInst t a b) = [a, b]"
| "operands (AddInst t a b) = [a, b]"
| "operands (SelectInst t c a b) = [c, a, b]"
| "operands (CallInst t l args) = args"
| "operands (OtherInst t args) = args"

fun mapOperands :: "(Value \<Rightarrow> Value) \<Rightarrow> Inst \<Rightarrow> Inst" where
  "mapOperands g (GetElementPtrInst t p idx c) = GetElementPtrInst t (g p) (map g idx) c"
| "mapOperands g (LoadInst t p s) = LoadInst t (g p) s"
| "mapOperands g (StoreInst v p s) = StoreInst (g v) (g p) s"
| "mapOperands g (BitCastInst t v) = BitCastInst t (g v)"
| "mapOperands g (AddrSpaceCastInst t v) = AddrSpaceCastInst t (g v)"
| "mapOperands g (PtrToIntInst t v) = PtrToIntInst t (g v)"
| "mapOperands g (IntToPtrInst t v) = IntToPtrInst t (g v)"
| "mapOperands g (AndInst t a b) = AndInst t (g a) (g b)"
| "mapOperands g (AddInst t a b) = AddInst t (g a) (g b)"
| "mapOperands g (SelectInst t c a b) = SelectInst t (g c) (g a) (g b)"
| "mapOperands g (CallInst t l args) = CallInst t l (map g args)"
| "mapOperands g (OtherInst t args) = OtherInst t (map g args)"

fun instType :: "Inst \<Rightarrow> ty" where
  "instType (GetElementPtrInst t p idx c) = t"
| "instType (LoadInst t p s) = t"
| "instType (StoreInst v p s) = VoidTy"
| "instType (BitCastInst t v) = t"
| "instType (AddrSpaceCastInst t v) = t"
| "instType (PtrToIntInst t v) = t"
| "instType (IntToPtrInst t v) = t"
| "instType (AndInst t a b) = t"
| "instType (AddInst t a b) = t"
| "instType (SelectInst t c a b) = t"
| "instType (CallInst t l args) = t"
| "instType (OtherInst t args) = t"

fun setInstType :: "ty \<Rightarrow> Inst \<Rightarrow> Inst" where
  "setInstType n (GetElementPtrInst t p idx c) = GetElementPtrInst n p idx c"
| "setInstType n (LoadInst t p s) = LoadInst n p s"
| "setInstType n (StoreInst v p s) = StoreInst v p s"
| "setInstType n (BitCastInst t v) = BitCastInst n v"
| "setInstType n (AddrSpaceCastInst t v) = AddrSpaceCastInst n v"
| "setInstType n (PtrToIntInst t v) = PtrToIntInst n v"
| "setInstType n (IntToPtrInst t v) = IntToPtrInst n v"
| "setInstType n (AndInst t a b) = AndInst n a b"
| "setInstType n (AddInst t a b) = AddInst n a b"
| "setInstType n (SelectInst t c a b) = SelectInst n c a b"
| "setInstType n (CallInst t l args) = CallInst n l args"
| "setInstType n (OtherInst t args) = OtherInst n args"

definition findInst :: "Function \<Rightarrow> nat \<Rightarrow> Inst option" where
  "findInst f i = map_of (fnBody f) i"

text \<open>\<^verbatim>\<open>Value::getType\<close>.\<close>

definition getType :: "Function \<Rightarrow> Value \<Rightarrow> ty" where
  "getType f v =
     (case v of
        ArgV n \<Rightarrow> (if n < length (fnArgs f) then fnArgs f ! n else VoidTy)
      | InstV i \<Rightarrow> (case findInst f i of Some ins \<Rightarrow> instType ins | None \<Rightarrow> VoidTy)
      | ConstIntV b c \<Rightarrow> IntegerTy b)"

text \<open>
  A use is the using instruction and the used value. \<^verbatim>\<open>V->uses()\<close>: one use for every
  operand position that holds \<open>V\<close>, here in the order of the instructions.
\<close>

type_synonym Use = "nat \<times> Value"

definition usesOf :: "Function \<Rightarrow> Value \<Rightarrow> Use list" where
  "usesOf f v =
     concat (map (\<lambda>(i, ins). map (\<lambda>x. (i, v)) (filter (\<lambda>x. x = v) (operands ins))) (fnBody f))"

text \<open>\<^verbatim>\<open>Old->replaceAllUsesWith(New)\<close> and \<^verbatim>\<open>I->eraseFromParent()\<close>.\<close>

definition replaceUses :: "Value \<Rightarrow> Value \<Rightarrow> Function \<Rightarrow> Function" where
  "replaceUses old new f =
     f\<lparr>fnBody := map (\<lambda>(i, ins). (i, mapOperands (\<lambda>x. if x = old then new else x) ins)) (fnBody f)\<rparr>"

definition eraseFromParent :: "nat \<Rightarrow> Function \<Rightarrow> Function" where
  "eraseFromParent i f = f\<lparr>fnBody := filter (\<lambda>(j, ins). j \<noteq> i) (fnBody f)\<rparr>"

text \<open>\<^verbatim>\<open>DataLayout::getTypeStoreSize\<close>, in bytes; the data layout is the module's.\<close>

type_synonym DataLayout = "ty \<Rightarrow> nat"

text \<open>The three ways a step of an analysis ends: it gives up, it fails, it goes on.\<close>

datatype 'a outcome = GiveUp | Failed error | Continue 'a

subsection \<open>forwardContinuationFrameStoreToLoad\<close>

text \<open>
  The state of the walk over the uses of the frame pointer: the work list of uses with
  their byte offset, the loads found at each offset (in the order the offsets were first
  seen), the stores with their offset, and the intervals of bytes the stores write.
\<close>

record ForwardState =
  Worklist :: "(Use \<times> int) list"
  OffsetLoadMap :: "(int \<times> nat list) list"
  SortedStores :: "(int \<times> nat) list"
  StoreIntervals :: "(int \<times> int \<times> nat) list"

text \<open>\<^verbatim>\<open>OffsetLoadMap[Offset].push_back(Load)\<close>.\<close>

definition pushLoad :: "int \<Rightarrow> nat \<Rightarrow> (int \<times> nat list) list \<Rightarrow> (int \<times> nat list) list" where
  "pushLoad off l m =
     (if off \<in> fst ` set m
      then map (\<lambda>(k, ls). if k = off then (k, ls @ [l]) else (k, ls)) m
      else m @ [(off, [l])])"

text \<open>
  One turn of the loop over the work list, for a work list that is not empty: the last
  use is taken off and its user is looked at. An interval needs \<open>Left \<le> Right\<close>.
\<close>

definition walkStep :: "DataLayout \<Rightarrow> Function \<Rightarrow> ForwardState \<Rightarrow> ForwardState outcome" where
  "walkStep DL f s =
     (case last (Worklist s) of ((u, ptr), offset) \<Rightarrow>
       let rest = butlast (Worklist s) in
       (case findInst f u of
          None \<Rightarrow> GiveUp
        | Some (GetElementPtrInst t p idx c) \<Rightarrow>
            (case c of
               None \<Rightarrow> GiveUp
             | Some k \<Rightarrow>
                 Continue (s\<lparr>Worklist := rest @ map (\<lambda>uu. (uu, k + offset)) (usesOf f (InstV u))\<rparr>))
        | Some (LoadInst t p simple) \<Rightarrow>
            if \<not> simple then GiveUp
            else Continue (s\<lparr>Worklist := rest, OffsetLoadMap := pushLoad offset u (OffsetLoadMap s)\<rparr>)
        | Some (StoreInst v p simple) \<Rightarrow>
            if \<not> simple \<or> v = ptr then GiveUp
            else if p \<noteq> ptr then Failed (AssertionFailed ''Store->getPointerOperand() == PtrUse.Ptr->get()'')
            else
              (let StoredBytes = DL (getType f v) in
               if offset + int StoredBytes - 1 < offset
               then Failed (AssertionFailed ''Left <= Right'')
               else Continue (s\<lparr>Worklist := rest,
                                SortedStores := SortedStores s @ [(offset, u)],
                                StoreIntervals := StoreIntervals s @
                                  [(offset, offset + int StoredBytes - 1, u)]\<rparr>))
        | Some (BitCastInst t v) \<Rightarrow>
            Continue (s\<lparr>Worklist := rest @ map (\<lambda>uu. (uu, offset)) (usesOf f (InstV u))\<rparr>)
        | Some (AddrSpaceCastInst t v) \<Rightarrow>
            Continue (s\<lparr>Worklist := rest @ map (\<lambda>uu. (uu, offset)) (usesOf f (InstV u))\<rparr>)
        | Some _ \<Rightarrow> GiveUp))"

text \<open>The loop over the work list. It ends when the work list is empty.\<close>

partial_function (option) walk ::
  "DataLayout \<Rightarrow> Function \<Rightarrow> ForwardState \<Rightarrow> ForwardState outcome option" where
  "walk DL f s =
     (if Worklist s = [] then Some (Continue s)
      else (case walkStep DL f s of
              GiveUp \<Rightarrow> Some GiveUp
            | Failed e \<Rightarrow> Some (Failed e)
            | Continue s' \<Rightarrow> walk DL f s'))"

declare walk.simps [code]

text \<open>\<^verbatim>\<open>StoreIntervals.getContaining(Point)\<close>: the intervals with \<open>Left \<le> Point \<le> Right\<close>.\<close>

definition getContaining :: "(int \<times> int \<times> nat) list \<Rightarrow> int \<Rightarrow> (int \<times> int \<times> nat) list" where
  "getContaining ivs p = filter (\<lambda>(l, r, v). l \<le> p \<and> p \<le> r) ivs"

text \<open>
  \<^verbatim>\<open>llvm::upper_bound(SortedStores, Offset, ...)\<close>: the first store, in the order of the
  offsets, whose offset is strictly greater than \<open>Offset\<close>.
\<close>

definition upper_bound :: "(int \<times> nat) list \<Rightarrow> int \<Rightarrow> (int \<times> nat) option" where
  "upper_bound sortedStores off = find (\<lambda>e. off < fst e) sortedStores"

text \<open>
  The body of the loop over the loads of one offset: \<open>StoreInfo\<close> is the one interval that
  contains the offset and starts there.
\<close>

definition forwardLoad ::
  "DataLayout \<Rightarrow> (nat \<Rightarrow> nat \<Rightarrow> bool) \<Rightarrow> (int \<times> int \<times> nat) list \<Rightarrow> (int \<times> nat) list \<Rightarrow>
   int \<Rightarrow> int \<times> int \<times> nat \<Rightarrow> Function \<Rightarrow> nat \<Rightarrow> error + Function" where
  "forwardLoad DL DT ivs sortedStores offset StoreInfo f load =
     (case StoreInfo of (left, right, store) \<Rightarrow>
      (case findInst f load of
         Some (LoadInst t LoadPtr simple) \<Rightarrow>
           (let LoadBytes = DL t;
                IntersectionsRight = getContaining ivs (offset + int LoadBytes - 1)
            in if IntersectionsRight = [] then Inl (AssertionFailed ''!IntersectionsRight.empty()'')
               else if length IntersectionsRight \<noteq> 1 \<or>
                       snd (snd (hd IntersectionsRight)) \<noteq> store then Inr f
               else if (case upper_bound sortedStores offset of
                          Some MaybeConflict \<Rightarrow> fst MaybeConflict < right
                        | None \<Rightarrow> False) then Inr f
               else
                 (case findInst f store of
                    Some (StoreInst v p ssimple) \<Rightarrow>
                      if t \<noteq> getType f v then Inr f
                      else if \<not> DT store load then Inr f
                      else
                        (let f1 = eraseFromParent load (replaceUses (InstV load) v f)
                         in if usesOf f1 LoadPtr \<noteq> [] then Inr f1
                            else (case LoadPtr of
                                    InstV PtrInstr \<Rightarrow> Inr (eraseFromParent PtrInstr f1)
                                  | _ \<Rightarrow> Inr f1))
                  | _ \<Rightarrow> Inr f))
       | _ \<Rightarrow> Inr f))"

fun forwardLoads ::
  "DataLayout \<Rightarrow> (nat \<Rightarrow> nat \<Rightarrow> bool) \<Rightarrow> (int \<times> int \<times> nat) list \<Rightarrow> (int \<times> nat) list \<Rightarrow>
   int \<Rightarrow> int \<times> int \<times> nat \<Rightarrow> Function \<Rightarrow> nat list \<Rightarrow> error + Function" where
  "forwardLoads DL DT ivs sortedStores offset StoreInfo f [] = Inr f"
| "forwardLoads DL DT ivs sortedStores offset StoreInfo f (l # ls) =
     (case forwardLoad DL DT ivs sortedStores offset StoreInfo f l of
        Inl e \<Rightarrow> Inl e
      | Inr f' \<Rightarrow> forwardLoads DL DT ivs sortedStores offset StoreInfo f' ls)"

text \<open>The body of the loop over the offsets with loads.\<close>

definition forwardOffset ::
  "DataLayout \<Rightarrow> (nat \<Rightarrow> nat \<Rightarrow> bool) \<Rightarrow> (int \<times> int \<times> nat) list \<Rightarrow> (int \<times> nat) list \<Rightarrow>
   Function \<Rightarrow> int \<times> nat list \<Rightarrow> error + Function" where
  "forwardOffset DL DT ivs sortedStores f e =
     (case e of (offset, loads) \<Rightarrow>
       if loads = [] then Inl (AssertionFailed ''!Loads.empty()'')
       else
         (let IntersectionsLeft = getContaining ivs offset
          in if length IntersectionsLeft \<noteq> 1 then Inr f
             else
               (let StoreInfo = hd IntersectionsLeft
                in if offset \<noteq> fst StoreInfo then Inr f
                   else forwardLoads DL DT ivs sortedStores offset StoreInfo f loads)))"

fun forwardOffsets ::
  "DataLayout \<Rightarrow> (nat \<Rightarrow> nat \<Rightarrow> bool) \<Rightarrow> (int \<times> int \<times> nat) list \<Rightarrow> (int \<times> nat) list \<Rightarrow>
   Function \<Rightarrow> (int \<times> nat list) list \<Rightarrow> error + Function" where
  "forwardOffsets DL DT ivs sortedStores f [] = Inr f"
| "forwardOffsets DL DT ivs sortedStores f (e # es) =
     (case forwardOffset DL DT ivs sortedStores f e of
        Inl err \<Rightarrow> Inl err
      | Inr f' \<Rightarrow> forwardOffsets DL DT ivs sortedStores f' es)"

text \<open>The state the walk starts from: the uses of the frame pointer, at offset 0.\<close>

definition initialForwardState :: "Function \<Rightarrow> Value \<Rightarrow> ForwardState" where
  "initialForwardState f FramePtr =
     \<lparr>Worklist = map (\<lambda>u. (u, 0)) (usesOf f FramePtr), OffsetLoadMap = [],
      SortedStores = [], StoreIntervals = []\<rparr>"

text \<open>
  \<^verbatim>\<open>forwardContinuationFrameStoreToLoad(DT, FramePtr)\<close>, on the function that holds the
  frame pointer. \<open>DT store load\<close> is \<^verbatim>\<open>DT.dominates(Store, Load)\<close>. The result is \<open>None\<close>
  when the walk does not end, an error when an assertion fails, and the function as the
  pass leaves it otherwise.
\<close>

definition forwardContinuationFrameStoreToLoad ::
  "DataLayout \<Rightarrow> (nat \<Rightarrow> nat \<Rightarrow> bool) \<Rightarrow> Function \<Rightarrow> Value \<Rightarrow> (error + Function) option" where
  "forwardContinuationFrameStoreToLoad DL DT f FramePtr =
     (case walk DL f (initialForwardState f FramePtr) of
        None \<Rightarrow> None
      | Some GiveUp \<Rightarrow> Some (Inr f)
      | Some (Failed e) \<Rightarrow> Some (Inl e)
      | Some (Continue s) \<Rightarrow>
          if StoreIntervals s = [] then Some (Inr f)
          else Some (forwardOffsets DL DT (StoreIntervals s) (sort_key fst (SortedStores s)) f
                       (OffsetLoadMap s)))"

subsection \<open>replaceAllPointerUses\<close>

fun isPointerTy :: "ty \<Rightarrow> bool" where
  "isPointerTy (PointerTy a) = True"
| "isPointerTy _ = False"

text \<open>\<^verbatim>\<open>V->users()\<close>: the user of every use.\<close>

definition usersOf :: "Function \<Rightarrow> Value \<Rightarrow> nat list" where
  "usersOf f v = map fst (usesOf f v)"

text \<open>\<^verbatim>\<open>V->mutateType(Ty)\<close>.\<close>

definition mutateType :: "Value \<Rightarrow> ty \<Rightarrow> Function \<Rightarrow> Function" where
  "mutateType v t f =
     (case v of
        InstV i \<Rightarrow> f\<lparr>fnBody := map (\<lambda>(j, ins). if j = i then (j, setInstType t ins) else (j, ins)) (fnBody f)\<rparr>
      | ArgV n \<Rightarrow> f\<lparr>fnArgs := (fnArgs f)[n := t]\<rparr>
      | ConstIntV b c \<Rightarrow> f)"

text \<open>
  One turn of the loop over the work list of users, for a work list that is not empty.
  The state is the function, the work list and \<^verbatim>\<open>ToBeRemoved\<close>. With opaque pointers,
  \<^verbatim>\<open>getWithSamePointeeType(PtrTy, NewAS)\<close> is the pointer type of the address space \<open>NewAS\<close>.
\<close>

definition pointerUsesStep ::
  "nat \<Rightarrow> Function \<times> nat list \<times> nat list \<Rightarrow> error + Function \<times> nat list \<times> nat list" where
  "pointerUsesStep NewAS st =
     (case st of (f, wl, ToBeRemoved) \<Rightarrow>
       let Ptr = last wl; rest = butlast wl in
       (case findInst f Ptr of
          None \<Rightarrow> Inl (AssertionFailed ''cast<Instruction>(Ptr)'')
        | Some (CallInst t lifetime args) \<Rightarrow>
            if lifetime then Inr (eraseFromParent Ptr f, rest, ToBeRemoved)
            else Inl (Unreachable ''Unhandled call instruction'')
        | Some (LoadInst t p s) \<Rightarrow> Inr (f, rest, ToBeRemoved)
        | Some (StoreInst v p s) \<Rightarrow> Inr (f, rest, ToBeRemoved)
        | Some (AndInst t a b) \<Rightarrow> Inr (f, rest @ usersOf f (InstV Ptr), ToBeRemoved)
        | Some (AddInst t a b) \<Rightarrow> Inr (f, rest @ usersOf f (InstV Ptr), ToBeRemoved)
        | Some (PtrToIntInst t v) \<Rightarrow> Inr (f, rest @ usersOf f (InstV Ptr), ToBeRemoved)
        | Some (BitCastInst t v) \<Rightarrow>
            if \<not> (isPointerTy (getType f v) \<and> isPointerTy t)
            then Inl (AssertionFailed ''getSrcTy()->isPointerTy() && getDestTy()->isPointerTy()'')
            else (let f1 = mutateType (InstV Ptr) (PointerTy NewAS) f
                  in Inr (f1, rest @ usersOf f1 (InstV Ptr), ToBeRemoved))
        | Some (AddrSpaceCastInst t v) \<Rightarrow>
            if getType f v \<noteq> PointerTy NewAS
            then Inl (AssertionFailed ''getOperand(0)->getType()->getPointerAddressSpace() == NewAS'')
            else if \<not> isPointerTy t then Inl (AssertionFailed ''cast<PointerType>(Ty)'')
            else (let wl1 = rest @ usersOf f (InstV Ptr);
                      f1 = mutateType (InstV Ptr) (PointerTy NewAS) f;
                      f2 = replaceUses (InstV Ptr) v f1
                  in Inr (f2, wl1, ToBeRemoved @ [Ptr]))
        | Some (IntToPtrInst t v) \<Rightarrow>
            if \<not> isPointerTy t then Inl (AssertionFailed ''cast<PointerType>(Ty)'')
            else (let f1 = mutateType (InstV Ptr) (PointerTy NewAS) f
                  in Inr (f1, rest @ usersOf f1 (InstV Ptr), ToBeRemoved))
        | Some (GetElementPtrInst t p idx c) \<Rightarrow>
            if \<not> isPointerTy t then Inl (AssertionFailed ''cast<PointerType>(Ty)'')
            else (let f1 = mutateType (InstV Ptr) (PointerTy NewAS) f
                  in Inr (f1, rest @ usersOf f1 (InstV Ptr), ToBeRemoved))
        | Some (SelectInst t c a b) \<Rightarrow>
            if isPointerTy t then
              (if PointerTy NewAS = t then Inr (f, rest, ToBeRemoved)
               else (let f1 = mutateType (InstV Ptr) (PointerTy NewAS) f
                     in Inr (f1, rest @ usersOf f1 (InstV Ptr), ToBeRemoved)))
            else Inr (f, rest @ usersOf f (InstV Ptr), ToBeRemoved)
        | Some (OtherInst t args) \<Rightarrow> Inl (Unreachable ''Unhandled instruction'')))"

partial_function (option) pointerUsesLoop ::
  "nat \<Rightarrow> Function \<times> nat list \<times> nat list \<Rightarrow> (error + Function \<times> nat list) option" where
  "pointerUsesLoop NewAS st =
     (if fst (snd st) = [] then Some (Inr (fst st, snd (snd st)))
      else (case pointerUsesStep NewAS st of
              Inl e \<Rightarrow> Some (Inl e)
            | Inr st' \<Rightarrow> pointerUsesLoop NewAS st'))"

declare pointerUsesLoop.simps [code]

text \<open>
  \<^verbatim>\<open>replaceAllPointerUses(Builder, OldPointerValue, NewPointerValue, ToBeRemoved)\<close>, on the
  function that holds the two values. The result is the function and \<^verbatim>\<open>ToBeRemoved\<close>.
\<close>

definition replaceAllPointerUses ::
  "Function \<Rightarrow> Value \<Rightarrow> Value \<Rightarrow> nat list \<Rightarrow> (error + Function \<times> nat list) option" where
  "replaceAllPointerUses f OldPointerValue NewPointerValue ToBeRemoved =
     (case getType f OldPointerValue of
        PointerTy OldAS \<Rightarrow>
          (case getType f NewPointerValue of
             PointerTy NewAS \<Rightarrow>
               if NewAS = OldAS
               then Some (Inl (AssertionFailed ''NewAS != OldPtrTy->getAddressSpace()''))
               else
                 (let f1 = mutateType OldPointerValue (PointerTy NewAS) f;
                      wl = usersOf f1 OldPointerValue;
                      f2 = replaceUses OldPointerValue NewPointerValue f1
                  in pointerUsesLoop NewAS (f2, wl, ToBeRemoved))
           | _ \<Rightarrow> Some (Inl (AssertionFailed ''cast<PointerType>(NewPointerValue->getType())'')))
      | _ \<Rightarrow> Some (Inl (AssertionFailed ''cast<PointerType>(OldPointerValue->getType())'')))"

subsection \<open>The runtime library and the module metadata\<close>

text \<open>
  A function of the runtime library (GPURT): the types of its parameters, for a pointer
  parameter the type it points to (\<^verbatim>\<open>getFuncArgPtrElementType\<close>), and its return type.
\<close>

record FuncDecl =
  fdParams :: "(ty \<times> ty option) list"
  fdReturn :: ty

type_synonym Library = "(string \<times> FuncDecl) list"

definition getFunction :: "Library \<Rightarrow> string \<Rightarrow> FuncDecl option" where
  "getFunction lib name = map_of lib name"

datatype ContStackAddrspace = Scratch | Global

text \<open>
  What the helpers read of the module they work in: the stack address space of its
  metadata, if set (\<^verbatim>\<open>ContHelper::tryGetStackAddrspace\<close>).
\<close>

record ContModule =
  stackAddrspaceMD :: "ContStackAddrspace option"

subsection \<open>continuationStackOffsetToPtr\<close>

fun isStructTy :: "ty \<Rightarrow> bool" where
  "isStructTy (StructTy ts) = True"
| "isStructTy _ = False"

text \<open>\<^verbatim>\<open>getContinuationStackGlobalMemBase\<close>: the library function, which must exist, take no
  argument and return a 64-bit integer.\<close>

definition getContinuationStackGlobalMemBase :: "Library \<Rightarrow> error + string" where
  "getContinuationStackGlobalMemBase lib =
     (case getFunction lib ''_cont_GetContinuationStackGlobalMemBase'' of
        None \<Rightarrow> Inl (AssertionFailed ''Could not find GetContinuationStackGlobalMemBase function'')
      | Some F \<Rightarrow>
          if fdParams F = [] \<and> fdReturn F = IntegerTy 64
          then Inr ''_cont_GetContinuationStackGlobalMemBase''
          else Inl (AssertionFailed ''F->arg_size() == 0 && F->getReturnType()->isIntegerTy(64)''))"

text \<open>
  \<^verbatim>\<open>continuationStackOffsetToPtr(B, Offset, GpurtLibrary, Inliner)\<close>. \<open>asNum\<close> gives the
  number of the address space of a stack addressing mode (the enumeration is declared
  outside these sources), \<open>typeOf\<close> the type of a value.
\<close>

definition continuationStackOffsetToPtr ::
  "(ContStackAddrspace \<Rightarrow> nat) \<Rightarrow> (val \<Rightarrow> ty) \<Rightarrow> ContModule \<Rightarrow> Library \<Rightarrow> val \<Rightarrow> error + val" where
  "continuationStackOffsetToPtr asNum typeOf M GpurtLibrary Offset =
     (if typeOf Offset \<noteq> IntegerTy 32
      then Inl (AssertionFailed ''Stack offset is expected to be an i32'')
      else
        (case stackAddrspaceMD M of
           None \<Rightarrow> Inl (FatalError ''Missing stack addrspace metadata!'')
         | Some Scratch \<Rightarrow> Inr (CreateIntToPtr Offset (PointerTy (asNum Scratch)))
         | Some Global \<Rightarrow>
             (case getContinuationStackGlobalMemBase GpurtLibrary of
                Inl e \<Rightarrow> Inl e
              | Inr base \<Rightarrow>
                  (let PtrTy = PointerTy (asNum Global);
                       BaseAddr = InlineCall base [];
                       BaseAddrPtr = CreateIntToPtr BaseAddr PtrTy
                   in Inr (CreateGEP (IntegerTy 8) BaseAddrPtr [Offset])))))"

subsection \<open>replaceIntrinsicCall\<close>

datatype DXILShaderKind =
    Pixel | Vertex | Geometry | Hull | Domain | Compute | Library | RayGeneration
  | Intersection | AnyHit | ClosestHit | Miss | Callable | Mesh | Amplification | Node
  | Invalid

text \<open>
  The operations of the lgc.rt dialect: those of the table \<^verbatim>\<open>LgcRtGpuRtMap\<close>, and
  \<open>UnmappedLgcRtOp\<close> for any operation of the dialect that the table does not have.
\<close>

datatype LgcRtOp =
    InstanceIdOp | InstanceIndexOp | HitKindOp | RayFlagsOp | DispatchRaysIndexOp
  | DispatchRaysDimensionsOp | WorldRayOriginOp | WorldRayDirectionOp | ObjectRayOriginOp
  | ObjectRayDirectionOp | ObjectToWorldOp | WorldToObjectOp | RayTminOp | RayTcurrentOp
  | IgnoreHitOp | AcceptHitAndEndSearchOp | TraceRayOp | ReportHitOp | CallCallableShaderOp
  | PrimitiveIndexOp | GeometryIndexOp | UnmappedLgcRtOp nat

record GpuRtIntrinsicEntry =
  Name :: string
  AccessesHitData :: bool

fun LgcRtGpuRtMap :: "LgcRtOp \<Rightarrow> GpuRtIntrinsicEntry option" where
  "LgcRtGpuRtMap InstanceIdOp = Some \<lparr>Name = ''InstanceID'', AccessesHitData = True\<rparr>"
| "LgcRtGpuRtMap InstanceIndexOp = Some \<lparr>Name = ''InstanceIndex'', AccessesHitData = True\<rparr>"
| "LgcRtGpuRtMap HitKindOp = Some \<lparr>Name = ''HitKind'', AccessesHitData = True\<rparr>"
| "LgcRtGpuRtMap RayFlagsOp = Some \<lparr>Name = ''RayFlags'', AccessesHitData = False\<rparr>"
| "LgcRtGpuRtMap DispatchRaysIndexOp = Some \<lparr>Name = ''DispatchRaysIndex3'', AccessesHitData = False\<rparr>"
| "LgcRtGpuRtMap DispatchRaysDimensionsOp =
     Some \<lparr>Name = ''DispatchRaysDimensions3'', AccessesHitData = False\<rparr>"
| "LgcRtGpuRtMap WorldRayOriginOp = Some \<lparr>Name = ''WorldRayOrigin3'', AccessesHitData = False\<rparr>"
| "LgcRtGpuRtMap WorldRayDirectionOp = Some \<lparr>Name = ''WorldRayDirection3'', AccessesHitData = False\<rparr>"
| "LgcRtGpuRtMap ObjectRayOriginOp = Some \<lparr>Name = ''ObjectRayOrigin3'', AccessesHitData = True\<rparr>"
| "LgcRtGpuRtMap ObjectRayDirectionOp = Some \<lparr>Name = ''ObjectRayDirection3'', AccessesHitData = True\<rparr>"
| "LgcRtGpuRtMap ObjectToWorldOp = Some \<lparr>Name = ''ObjectToWorld4x3'', AccessesHitData = True\<rparr>"
| "LgcRtGpuRtMap WorldToObjectOp = Some \<lparr>Name = ''WorldToObject4x3'', AccessesHitData = True\<rparr>"
| "LgcRtGpuRtMap RayTminOp = Some \<lparr>Name = ''RayTMin'', AccessesHitData = False\<rparr>"
| "LgcRtGpuRtMap RayTcurrentOp = Some \<lparr>Name = ''RayTCurrent'', AccessesHitData = True\<rparr>"
| "LgcRtGpuRtMap IgnoreHitOp = Some \<lparr>Name = ''IgnoreHit'', AccessesHitData = False\<rparr>"
| "LgcRtGpuRtMap AcceptHitAndEndSearchOp =
     Some \<lparr>Name = ''AcceptHitAndEndSearch'', AccessesHitData = False\<rparr>"
| "LgcRtGpuRtMap TraceRayOp = Some \<lparr>Name = ''TraceRay'', AccessesHitData = False\<rparr>"
| "LgcRtGpuRtMap ReportHitOp = Some \<lparr>Name = ''ReportHit'', AccessesHitData = False\<rparr>"
| "LgcRtGpuRtMap CallCallableShaderOp = Some \<lparr>Name = ''CallShader'', AccessesHitData = False\<rparr>"
| "LgcRtGpuRtMap PrimitiveIndexOp = Some \<lparr>Name = ''PrimitiveIndex'', AccessesHitData = True\<rparr>"
| "LgcRtGpuRtMap GeometryIndexOp = Some \<lparr>Name = ''GeometryIndex'', AccessesHitData = True\<rparr>"
| "LgcRtGpuRtMap (UnmappedLgcRtOp n) = None"

text \<open>
  A call instruction as \<^verbatim>\<open>replaceIntrinsicCall\<close> sees it: the called function is an
  operation of the lgc.rt dialect (its name starts with \<^verbatim>\<open>lgc.rt\<close>) or something else;
  the arguments; the type of the result.
\<close>

datatype Callee = LgcRtCallee LgcRtOp | OtherCallee

record CallInstr =
  ciCallee :: Callee
  ciArgs :: "val list"
  ciType :: ty

text \<open>\<^verbatim>\<open>findIntrImplEntryByIntrinsicCall\<close>.\<close>

definition findIntrImplEntryByIntrinsicCall :: "CallInstr \<Rightarrow> error + GpuRtIntrinsicEntry option" where
  "findIntrImplEntryByIntrinsicCall Call =
     (case ciCallee Call of
        OtherCallee \<Rightarrow> Inr None
      | LgcRtCallee op \<Rightarrow>
          (case LgcRtGpuRtMap op of
             None \<Rightarrow> Inl (FatalError ''Unhandled lgc.rt op!'')
           | Some e \<Rightarrow> Inr (Some e)))"

text \<open>
  The loop of \<^verbatim>\<open>getDXILSystemData\<close>: descend into the first member until the wanted type
  is found; the result is the number of zero indices after the first.
\<close>

fun systemDataDepth :: "ty \<Rightarrow> ty \<Rightarrow> error + nat" where
  "systemDataDepth (StructTy (t # ts)) wanted =
     (if StructTy (t # ts) = wanted then Inr 0
      else (case systemDataDepth t wanted of Inl e \<Rightarrow> Inl e | Inr n \<Rightarrow> Inr (Suc n)))"
| "systemDataDepth (StructTy []) wanted =
     (if StructTy [] = wanted then Inr 0
      else Inl (AssertionFailed ''Element number out of range!''))"
| "systemDataDepth t wanted =
     (if t = wanted then Inr 0
      else Inl (FatalError
        ''Invalid system data struct: Did not contain the needed struct type''))"

text \<open>\<^verbatim>\<open>getDXILSystemData(B, SystemData, SystemDataTy, Ty)\<close>; \<open>Ty\<close> is absent when the
  parameter it is read from is not a pointer.\<close>

definition getDXILSystemData :: "val \<Rightarrow> ty \<Rightarrow> ty option \<Rightarrow> error + val" where
  "getDXILSystemData SystemData SystemDataTy Ty =
     (case Ty of
        None \<Rightarrow> Inl (AssertionFailed ''Expected a struct type for system data'')
      | Some wanted \<Rightarrow>
          if \<not> isStructTy wanted then Inl (AssertionFailed ''Expected a struct type for system data'')
          else
            (case systemDataDepth SystemDataTy wanted of
               Inl e \<Rightarrow> Inl e
             | Inr n \<Rightarrow>
                 if n = 0 then Inr SystemData
                 else Inr (CreateInBoundsGEP SystemDataTy SystemData
                             (replicate (Suc n) (ConstInt32 0)))))"

text \<open>\<^verbatim>\<open>getFuncArgPtrElementType(F, ArgNo)\<close>.\<close>

definition getFuncArgPtrElementType :: "FuncDecl \<Rightarrow> nat \<Rightarrow> error + ty option" where
  "getFuncArgPtrElementType F n =
     (if n < length (fdParams F)
      then (case fdParams F ! n of (t, pointee) \<Rightarrow> if isPointerTy t then Inr pointee else Inr None)
      else Inl (AssertionFailed ''getArg() out of range!''))"

fun isIntegerTy :: "ty \<Rightarrow> bool" where
  "isIntegerTy (IntegerTy n) = True"
| "isIntegerTy _ = False"

text \<open>
  The loop over the remaining parameters of the implementation: the call's arguments
  are taken in order, zero-extended where both types are integers and differ.
\<close>

fun convertArguments ::
  "(val \<Rightarrow> ty) \<Rightarrow> string \<Rightarrow> val list \<Rightarrow> ty list \<Rightarrow> error + val list" where
  "convertArguments typeOf name args [] = Inr []"
| "convertArguments typeOf name [] (NewType # ps) =
     Inl (AssertionFailed ''getArgOperand() out of range!'')"
| "convertArguments typeOf name (Arg # args) (NewType # ps) =
     (if typeOf Arg = NewType then
        (case convertArguments typeOf name args ps of
           Inl e \<Rightarrow> Inl e | Inr r \<Rightarrow> Inr (Arg # r))
      else if isIntegerTy NewType \<and> isIntegerTy (typeOf Arg) then
        (case convertArguments typeOf name args ps of
           Inl e \<Rightarrow> Inl e | Inr r \<Rightarrow> Inr (CreateZExt Arg NewType # r))
      else Inl (FatalCannotConvert (typeOf Arg) NewType name))"

text \<open>
  The state accessor for hit data: the candidate state in any-hit and intersection
  shaders, the committed state otherwise. The function must exist in the library,
  return a struct and take one pointer.
\<close>

definition getHitDataAccessor :: "DXILShaderKind \<Rightarrow> Library \<Rightarrow> error + string \<times> FuncDecl" where
  "getHitDataAccessor Kind GpurtLibrary =
     (if Kind = AnyHit \<or> Kind = Intersection then
        (case getFunction GpurtLibrary ''_cont_GetCandidateState'' of
           None \<Rightarrow> Inl (AssertionFailed ''Could not find GetCandidateState function'')
         | Some F \<Rightarrow>
             if isStructTy (fdReturn F) \<and> length (fdParams F) = 1 \<and>
                isPointerTy (fst (hd (fdParams F)))
             then Inr (''_cont_GetCandidateState'', F)
             else Inl (AssertionFailed ''GetCandidateState signature''))
      else
        (case getFunction GpurtLibrary ''_cont_GetCommittedState'' of
           None \<Rightarrow> Inl (AssertionFailed ''Could not find GetCommittedState function'')
         | Some F \<Rightarrow>
             if isStructTy (fdReturn F) \<and> length (fdParams F) = 1 \<and>
                isPointerTy (fst (hd (fdParams F)))
             then Inr (''_cont_GetCommittedState'', F)
             else Inl (AssertionFailed ''GetCommittedState signature'')))"

text \<open>
  What \<^verbatim>\<open>replaceIntrinsicCall\<close> leaves behind: the allocas it created in the entry
  block, the stores it created before the call, and the new call, which replaces the
  old one and is inlined.
\<close>

record IntrinsicReplacement =
  irAllocas :: "val list"
  irStores :: "(val \<times> val) list"
  irNewCall :: val

text \<open>
  \<^verbatim>\<open>replaceIntrinsicCall\<close>. The result is \<open>None\<close> (\<^verbatim>\<open>nullptr\<close>) when the call is not a call
  of an lgc.rt operation.
\<close>

definition replaceIntrinsicCall ::
  "(val \<Rightarrow> ty) \<Rightarrow> ty \<Rightarrow> val \<Rightarrow> DXILShaderKind \<Rightarrow> CallInstr \<Rightarrow> Library \<Rightarrow>
   error + IntrinsicReplacement option" where
  "replaceIntrinsicCall typeOf SystemDataTy SystemData Kind Call GpurtLibrary =
     (case findIntrImplEntryByIntrinsicCall Call of
        Inl e \<Rightarrow> Inl e
      | Inr None \<Rightarrow> Inr None
      | Inr (Some IntrImplEntry) \<Rightarrow>
         (let name = ''_cont_'' @ Name IntrImplEntry in
          case getFunction GpurtLibrary name of
            None \<Rightarrow> Inl (FatalError (''Intrinsic implementation '' @ [CHR 0x27] @ name @ [CHR 0x27] @ '' not found''))
          | Some IntrImpl \<Rightarrow>
             (case getFuncArgPtrElementType IntrImpl 0 of
                Inl e \<Rightarrow> Inl e
              | Inr sdTy \<Rightarrow>
                 (case getDXILSystemData SystemData SystemDataTy sdTy of
                    Inl e \<Rightarrow> Inl e
                  | Inr sd \<Rightarrow>
                     if AccessesHitData IntrImplEntry then
                       (case getHitDataAccessor Kind GpurtLibrary of
                          Inl e \<Rightarrow> Inl e
                        | Inr (accessor, GetHitData) \<Rightarrow>
                           (case getFuncArgPtrElementType GetHitData 0 of
                              Inl e \<Rightarrow> Inl e
                            | Inr hdTy \<Rightarrow>
                               (case getDXILSystemData SystemData SystemDataTy hdTy of
                                  Inl e \<Rightarrow> Inl e
                                | Inr hsd \<Rightarrow>
                                   (let HitDataAlloca = CreateAlloca (fdReturn GetHitData);
                                        HitData = InlineCall accessor [hsd]
                                    in case convertArguments typeOf (Name IntrImplEntry) (ciArgs Call)
                                              (map fst (drop 2 (fdParams IntrImpl))) of
                                         Inl e \<Rightarrow> Inl e
                                       | Inr rest \<Rightarrow>
                                          Inr (Some \<lparr>irAllocas = [HitDataAlloca],
                                                      irStores = [(HitData, HitDataAlloca)],
                                                      irNewCall = CreateCall name
                                                        (sd # HitDataAlloca # rest)\<rparr>)))))
                     else
                       (case convertArguments typeOf (Name IntrImplEntry) (ciArgs Call)
                               (map fst (drop 1 (fdParams IntrImpl))) of
                          Inl e \<Rightarrow> Inl e
                        | Inr rest \<Rightarrow>
                           Inr (Some \<lparr>irAllocas = [], irStores = [],
                                       irNewCall = CreateCall name (sd # rest)\<rparr>))))))"

subsection \<open>Notions the properties are stated with\<close>

text \<open>
  The states the walk of \<^verbatim>\<open>forwardContinuationFrameStoreToLoad\<close> goes through: from a
  state, every turn of the loop that goes on leads to the next state.
\<close>

inductive walkReaches :: "DataLayout \<Rightarrow> Function \<Rightarrow> ForwardState \<Rightarrow> ForwardState \<Rightarrow> bool"
  for DL :: DataLayout and f :: Function where
    start: "walkReaches DL f s s"
  | step: "walkReaches DL f s s1 \<Longrightarrow> Worklist s1 \<noteq> [] \<Longrightarrow> walkStep DL f s1 = Continue s2
           \<Longrightarrow> walkReaches DL f s s2"

text \<open>
  The uses at which the walk gives up: the user is an address computation whose offset
  is not constant, a load or store that is not simple, a store of the walked pointer
  itself, or an instruction of any other kind than a bitcast or an address-space cast.
\<close>

definition declinesAt :: "Function \<Rightarrow> Use \<Rightarrow> bool" where
  "declinesAt f use =
     (case use of (u, ptr) \<Rightarrow>
       (case findInst f u of
          None \<Rightarrow> False
        | Some (GetElementPtrInst t p idx c) \<Rightarrow> c = None
        | Some (LoadInst t p simple) \<Rightarrow> \<not> simple
        | Some (StoreInst v p simple) \<Rightarrow> \<not> simple \<or> v = ptr
        | Some (BitCastInst t v) \<Rightarrow> False
        | Some (AddrSpaceCastInst t v) \<Rightarrow> False
        | Some _ \<Rightarrow> True))"













subsection \<open>Example functions and libraries\<close>

text \<open>A data layout: integers take their bits rounded up to bytes, pointers 8 bytes.\<close>

definition exampleDL :: DataLayout where
  "exampleDL t = (case t of IntegerTy n \<Rightarrow> (n + 7) div 8 | FloatTy \<Rightarrow> 4 | PointerTy a \<Rightarrow> 8 | _ \<Rightarrow> 0)"






definition wideLoad :: Function where
  "wideLoad = \<lparr>fnArgs = [PointerTy 0, IntegerTy 32],
     fnBody = [(1, StoreInst (ArgV 1) (ArgV 0) True),
               (2, LoadInst (IntegerTy 32) (ArgV 0) True),
               (3, LoadInst (IntegerTy 64) (ArgV 0) True),
               (4, OtherInst VoidTy [InstV 2, InstV 3])]\<rparr>"

definition volatileLoad :: Function where
  "volatileLoad = \<lparr>fnArgs = [PointerTy 0, IntegerTy 32],
     fnBody = [(1, StoreInst (ArgV 1) (ArgV 0) True),
               (2, GetElementPtrInst (PointerTy 0) (ArgV 0) [ConstIntV 32 4] (Some 4)),
               (3, LoadInst (IntegerTy 32) (InstV 2) False),
               (4, LoadInst (IntegerTy 32) (ArgV 0) True),
               (5, OtherInst VoidTy [InstV 4])]\<rparr>"

text \<open>
  A function whose argument 0 is a pointer in address space 5, to be rewritten to the
  pointer argument 1 in address space 32, and the function after that rewrite.
\<close>

definition framePtrUsers :: Function where
  "framePtrUsers = \<lparr>fnArgs = [PointerTy 5, PointerTy 32],
     fnBody = [(1, CallInst VoidTy True [ConstIntV 64 8, ArgV 0]),
               (2, GetElementPtrInst (PointerTy 5) (ArgV 0) [ConstIntV 32 4] (Some 4)),
               (3, LoadInst (IntegerTy 32) (InstV 2) True),
               (4, AddrSpaceCastInst (PointerTy 32) (ArgV 0)),
               (5, StoreInst (InstV 3) (InstV 4) True)]\<rparr>"

definition afterRewrite :: Function where
  "afterRewrite = \<lparr>fnArgs = [PointerTy 32, PointerTy 32],
     fnBody = [(2, GetElementPtrInst (PointerTy 32) (ArgV 1) [ConstIntV 32 4] (Some 4)),
               (3, LoadInst (IntegerTy 32) (InstV 2) True),
               (4, AddrSpaceCastInst (PointerTy 32) (ArgV 1)),
               (5, StoreInst (InstV 3) (ArgV 1) True)]\<rparr>"

text \<open>Runtime libraries: one with the stack base, one with a hit-data intrinsic and both state accessors.\<close>

definition baseLibrary :: Library where
  "baseLibrary = [(''_cont_GetContinuationStackGlobalMemBase'', \<lparr>fdParams = [], fdReturn = IntegerTy 64\<rparr>)]"

definition hitLibrary :: Library where
  "hitLibrary =
     [(''_cont_HitKind'',
         \<lparr>fdParams = [(PointerTy 5, Some (StructTy [IntegerTy 32])),
                      (PointerTy 5, Some (StructTy [FloatTy]))],
          fdReturn = IntegerTy 32\<rparr>),
      (''_cont_GetCandidateState'',
         \<lparr>fdParams = [(PointerTy 5, Some (StructTy [StructTy [IntegerTy 32]]))],
          fdReturn = StructTy [FloatTy]\<rparr>),
      (''_cont_GetCommittedState'',
         \<lparr>fdParams = [(PointerTy 5, Some (StructTy [StructTy [IntegerTy 32]]))],
          fdReturn = StructTy [FloatTy, FloatTy]\<rparr>)]"

definition hitKindCall :: CallInstr where
  "hitKindCall = \<lparr>ciCallee = LgcRtCallee HitKindOp, ciArgs = [], ciType = IntegerTy 32\<rparr>"


section \<open>Properties of the lowering of the gpurt operations\<close>

subsection \<open>Word arithmetic without wrap-around\<close>

lemma unat_and31: "unat ((t::u32) AND 31) = unat t mod 32"
proof -
  have "(31::u32) = mask 5" by (simp add: mask_eq_exp_minus_1)
  then have "t AND 31 = take_bit 5 t" by (simp add: take_bit_eq_mask)
  then show ?thesis by (simp add: take_bit_eq_mod unat_mod)
qed

lemma unat_drop5: "unat (drop_bit 5 (t::u32)) = unat t div 32"
  by (simp add: drop_bit_eq_div unat_div)

lemma base_unat:
  assumes "unat (t::u32) < 2^28"
  shows "unat ((t AND 31) + drop_bit 5 t * 512) = unat t mod 32 + (unat t div 32) * 512"
proof -
  have d: "unat (drop_bit 5 t) = unat t div 32" by (rule unat_drop5)
  have m: "unat (drop_bit 5 t * 512) = (unat t div 32) * 512"
  proof -
    have "unat (drop_bit 5 t) * unat (512::u32) < 2 ^ LENGTH(32)"
      using assms d by simp
    then have "unat (drop_bit 5 t * 512) = unat (drop_bit 5 t) * unat (512::u32)"
      by (simp only: unat_mult_lem)
    then show ?thesis using d by simp
  qed
  have "unat t div 32 < 8388608" using assms by simp
  moreover have "unat t mod 32 < 32" by simp
  ultimately have "unat t mod 32 + (unat t div 32) * 512 < 4294967296"
    by linarith
  then have "unat (t AND 31) + unat (drop_bit 5 t * 512) < 2 ^ LENGTH(32)"
    using m unat_and31[of t] by simp
  then have "unat ((t AND 31) + drop_bit 5 t * 512) = unat (t AND 31) + unat (drop_bit 5 t * 512)"
    by (simp only: unat_add_lem)
  then show ?thesis using m unat_and31[of t] by simp
qed

lemma base_nat_inj:
  "(a::nat) mod 32 + (a div 32) * 512 = b mod 32 + (b div 32) * 512 \<Longrightarrow> a = b"
proof -
  assume h: "a mod 32 + (a div 32) * 512 = b mod 32 + (b div 32) * 512"
  have "(a mod 32 + (a div 32) * 512) div 512 = a div 32" by simp
  moreover have "(b mod 32 + (b div 32) * 512) div 512 = b div 32" by simp
  ultimately have q: "a div 32 = b div 32" using h by simp
  then have "a mod 32 = b mod 32" using h by simp
  then have "32 * (a div 32) + a mod 32 = 32 * (b div 32) + b mod 32" using q by simp
  then show ?thesis by (simp only: mult_div_mod_eq)
qed

lemma base_nat_bound:
  "(t::nat) < w \<Longrightarrow> t mod 32 + (t div 32) * 512 < 16 * w"
proof -
  assume "t < w"
  then have "16 * t + 16 \<le> 16 * w" by simp
  moreover have "32 * (t div 32) + t mod 32 = t" by (rule mult_div_mod_eq)
  ultimately show ?thesis by linarith
qed

text \<open>
  Claim C5, as the code has it. For a workgroup size \<open>w\<close> with \<open>32 < w \<le> 2 ^ 28\<close>, the index
  that \<^verbatim>\<open>visitLdsStackInit\<close> computes for a thread \<open>t < w\<close> is
  \<open>t mod 32 + t div 32 * (16 * 32)\<close>; two distinct threads below \<open>w\<close> get distinct
  indices, and every index is below \<open>16 * w\<close>. The instructions are 32-bit
  instructions: the bound \<open>2 ^ 28\<close> keeps the multiplication from wrapping around.
\<close>

theorem ldsStackInit_base_offsets_distinct_and_bounded:
  assumes wg: "getWorkgroupSize ps = Inr w" and big: "32 < w" and bound: "w \<le> 2 ^ 28"
    and t1: "t1 < w" and t2: "t2 < w" and ne: "t1 \<noteq> t2"
  shows "visitOp ps st GpurtLdsStackInitOp =
           Inr ([], CreateShl
                      (CreatePtrToInt
                         (CreateGEP (stackTyOf st) (stackPtr st)
                            [ConstInt32 0, stackBasePerThread ps w])
                         (IntegerTy 32))
                      (ConstInt32 16)) \<and>
         (\<exists>b1 b2.
            evalInt (\<lambda>k. t1) (stackBasePerThread ps w) = Some b1 \<and>
            evalInt (\<lambda>k. t2) (stackBasePerThread ps w) = Some b2 \<and>
            unat b1 = unat t1 mod 32 + unat t1 div 32 * (16 * 32) \<and>
            unat b2 = unat t2 mod 32 + unat t2 div 32 * (16 * 32) \<and>
            b1 \<noteq> b2 \<and> unat b1 < 16 * unat w \<and> unat b2 < 16 * unat w)"
proof -
  let ?b = "\<lambda>t::u32. (t AND 31) + drop_bit 5 t * 512"
  have wn: "unat w \<le> 2 ^ 28"
    using bound by (simp add: word_le_nat_alt)
  have n1: "unat t1 < unat w" and n2: "unat t2 < unat w"
    using t1 t2 by (simp_all add: word_less_nat_alt)
  have e: "evalInt (\<lambda>k. t) (stackBasePerThread ps w) = Some (?b t)" for t
    using big by (simp add: stackBasePerThread_def getThreadIdInGroup_def MaxLdsStackEntries_def Let_def)
  have u1: "unat (?b t1) = unat t1 mod 32 + unat t1 div 32 * 512"
    using n1 wn by (intro base_unat) simp
  have u2: "unat (?b t2) = unat t2 mod 32 + unat t2 div 32 * 512"
    using n2 wn by (intro base_unat) simp
  have "unat t1 \<noteq> unat t2"
    using ne by (simp add: word_unat_eq_iff)
  then have "unat (?b t1) \<noteq> unat (?b t2)"
    using u1 u2 base_nat_inj [of "unat t1" "unat t2"] by auto
  then have d: "?b t1 \<noteq> ?b t2" by auto
  have b1: "unat (?b t1) < 16 * unat w"
    using u1 base_nat_bound [OF n1] by simp
  have b2: "unat (?b t2) < 16 * unat w"
    using u2 base_nat_bound [OF n2] by simp
  have v: "visitOp ps st GpurtLdsStackInitOp =
           Inr ([], CreateShl
                      (CreatePtrToInt
                         (CreateGEP (stackTyOf st) (stackPtr st)
                            [ConstInt32 0, stackBasePerThread ps w])
                         (IntegerTy 32))
                      (ConstInt32 16))"
    using wg by simp
  show ?thesis
    using v e u1 u2 d b1 b2 by simp
qed

lemma wg64: "getWorkgroupSize (ps_compute 64 10) = Inr 64"
  by (simp add: getWorkgroupSize_def ps_compute_def)

text \<open>The theorem at a workgroup of 64 threads, for the threads 0 and 33.\<close>

theorem ldsStackInit_base_offsets_witness:
  "getWorkgroupSize (ps_compute 64 10) = Inr 64 \<and>
   (\<exists>b1 b2.
      evalInt (\<lambda>k. 0) (stackBasePerThread (ps_compute 64 10) 64) = Some b1 \<and>
      evalInt (\<lambda>k. 33) (stackBasePerThread (ps_compute 64 10) 64) = Some b2 \<and>
      b1 \<noteq> b2 \<and> unat b1 < 16 * unat (64 :: u32))"
proof -
  have h: "getWorkgroupSize (ps_compute 64 10) = Inr 64" by (rule wg64)
  have "\<exists>b1 b2.
      evalInt (\<lambda>k. 0) (stackBasePerThread (ps_compute 64 10) 64) = Some b1 \<and>
      evalInt (\<lambda>k. 33) (stackBasePerThread (ps_compute 64 10) 64) = Some b2 \<and>
      b1 \<noteq> b2 \<and> unat b1 < 16 * unat (64 :: u32)"
    using ldsStackInit_base_offsets_distinct_and_bounded
      [OF h, of 0 33 newLowerGpuRt] by auto
  then show ?thesis using h by simp
qed

text \<open>
  Claim C5 as stated fails for large workgroups: with \<open>2 ^ 28 + 1\<close> threads, the threads
  \<open>0\<close> and \<open>2 ^ 28\<close> both get the index 0, since \<open>2 ^ 23 * 512\<close> wraps around to 0.
\<close>

theorem ldsStackInit_base_collision_counterexample:
  "getWorkgroupSize (ps_compute (2 ^ 28 + 1) 10) = Inr (2 ^ 28 + 1) \<and>
   (32 :: u32) < 2 ^ 28 + 1 \<and> (0 :: u32) < 2 ^ 28 + 1 \<and> (2 ^ 28 :: u32) < 2 ^ 28 + 1 \<and>
   (0 :: u32) \<noteq> 2 ^ 28 \<and>
   evalInt (\<lambda>k. 0) (stackBasePerThread (ps_compute (2 ^ 28 + 1) 10) (2 ^ 28 + 1)) = Some 0 \<and>
   evalInt (\<lambda>k. 2 ^ 28) (stackBasePerThread (ps_compute (2 ^ 28 + 1) 10) (2 ^ 28 + 1)) = Some 0"
  by (simp add: getWorkgroupSize_def ps_compute_def stackBasePerThread_def
        getThreadIdInGroup_def MaxLdsStackEntries_def drop_bit_eq_div Let_def)

lemma unat_ucast_up: "unat (ucast (w::u32) :: u64) = unat w"
proof -
  have "unat w < 2 ^ 32" using unsigned_less [of w, where ?'a = nat] by simp
  then have "unat w mod 18446744073709551616 = unat w" by simp
  then show ?thesis by (simp add: unsigned_ucast_eq take_bit_eq_mod)
qed

lemma alignTo_unat:
  "unat (alignTo (ucast (w::u32)) 32) = roundUpTo32 (unat w)"
proof -
  let ?v = "ucast w :: u64"
  have v: "unat ?v = unat w" by (rule unat_ucast_up)
  have lt: "unat w < 2 ^ 32" using unsigned_less [of w] by simp
  have a: "unat (?v + 32 - 1) = unat w + 31"
  proof -
    have s: "?v + 32 - 1 = ?v + 31" by simp
    have "unat ?v + unat (31::u64) < 2 ^ LENGTH(64)" using v lt by simp
    then have "unat (?v + 31) = unat ?v + unat (31::u64)" by (simp only: unat_add_lem)
    then have "unat (?v + 31) = unat w + 31" using v by simp
    then show ?thesis by (simp only: s)
  qed
  have d: "unat ((?v + 32 - 1) div 32) = (unat w + 31) div 32"
    using a by (simp add: unat_div)
  have "unat ((?v + 32 - 1) div 32) * unat (32::u64) < 2 ^ LENGTH(64)"
    using d lt by simp
  then have "unat ((?v + 32 - 1) div 32 * 32) = unat ((?v + 32 - 1) div 32) * unat (32::u64)"
    by (simp only: unat_mult_lem)
  then show ?thesis using d by (simp add: alignTo_def roundUpTo32_def)
qed

lemma alignTo_narrow:
  assumes "roundUpTo32 (unat (w::u32)) < 2 ^ 32"
  shows "unat (ucast (alignTo (ucast w) 32) :: u32) = roundUpTo32 (unat w)"
proof -
  have "unat (ucast (alignTo (ucast w) 32) :: u32) = unat (alignTo (ucast w) 32) mod 2 ^ 32"
    by (simp add: unsigned_ucast_eq take_bit_eq_mod)
  then show ?thesis using assms by (simp add: alignTo_unat)
qed

lemma payloadVisit_step:
  "payloadVisit (g, e) i = (g \<or> isStackAccess i, e \<or> requestsExtraStack i)"
  by (cases "(i)" rule: isStackAccess.cases) auto

lemma foldl_payloadVisit:
  "foldl payloadVisit (g, e) b = (g \<or> list_ex isStackAccess b, e \<or> list_ex requestsExtraStack b)"
  by (induction b arbitrary: g e) (auto simp: payloadVisit_step)

lemma needGlobalStack_iff: "needGlobalStack m = list_ex isStackAccess (mBody m)"
  by (simp add: needGlobalStack_def foldl_payloadVisit)

lemma needExtraStack_iff: "needExtraStack m = list_ex requestsExtraStack (mBody m)"
  by (simp add: needExtraStack_def foldl_payloadVisit)

lemma roundUpTo32_ge: "n \<le> roundUpTo32 n"
proof -
  have "32 * ((n + 31) div 32) + (n + 31) mod 32 = n + 31" by (rule mult_div_mod_eq)
  moreover have "(n + 31) mod 32 < 32" by simp
  ultimately show ?thesis unfolding roundUpTo32_def by linarith
qed

lemma unat_mult3:
  assumes "unat (x::u32) * unat y * unat z < 2 ^ 32" and "0 < unat x * unat y * unat z"
  shows "unat (x * y * z) = unat x * unat y * unat z"
proof -
  have z: "1 \<le> unat z" using assms(2) by (cases "unat z") simp_all
  have "unat x * unat y * 1 \<le> unat x * unat y * unat z" using z by (rule mult_le_mono2)
  then have "unat x * unat y < 2 ^ 32" using assms(1) by linarith
  then have "unat x * unat y < 2 ^ LENGTH(32)" by simp
  then have xy: "unat (x * y) = unat x * unat y" by (simp only: unat_mult_lem)
  have "unat (x * y) * unat z < 2 ^ LENGTH(32)" using assms(1) xy by simp
  then have "unat (x * y * z) = unat (x * y) * unat z" by (simp only: unat_mult_lem)
  then show ?thesis using xy by simp
qed

lemma getWorkgroupSize_exact:
  assumes pos: "0 < exactWorkgroupSize ps" and fit: "16 * exactWorkgroupSize ps < 2 ^ 32"
  shows "\<exists>w. getWorkgroupSize ps = Inr w \<and> unat w = exactWorkgroupSize ps"
proof -
  let ?X = "workgroupSizeX (computeShaderMode ps)"
  let ?Y = "workgroupSizeY (computeShaderMode ps)"
  let ?Z = "workgroupSizeZ (computeShaderMode ps)"
  let ?n = "if isGraphics ps then 64 else unat ?X * unat ?Y * unat ?Z"
  let ?w = "if isGraphics ps then (64::u32) else ?X * ?Y * ?Z"
  have e: "exactWorkgroupSize ps = (if 11 \<le> gfxIpMajor ps then roundUpTo32 ?n else ?n)"
    by (simp add: exactWorkgroupSize_def Let_def)
  have npos: "0 < ?n"
    using pos e by (cases "11 \<le> gfxIpMajor ps") (auto simp: roundUpTo32_def split: if_splits)
  have "?n \<le> exactWorkgroupSize ps"
    using e roundUpTo32_ge [of ?n] by (cases "11 \<le> gfxIpMajor ps") simp_all
  then have nlt: "?n < 2 ^ 32" using fit by linarith
  have un: "unat ?w = ?n"
  proof (cases "isGraphics ps")
    case True then show ?thesis by simp
  next
    case False
    then show ?thesis using unat_mult3 [of ?X ?Y ?Z] nlt npos by simp
  qed
  then have wnz: "?w \<noteq> 0" using npos by (auto simp del: unat_eq_0 unsigned_eq_0_iff)
  show ?thesis
  proof (cases "11 \<le> gfxIpMajor ps")
    case True
    have "roundUpTo32 (unat ?w) < 2 ^ 32" using e True fit un by simp
    then have "unat (ucast (alignTo (ucast ?w) 32) :: u32) = roundUpTo32 (unat ?w)"
      by (rule alignTo_narrow)
    then show ?thesis using True wnz e un by (simp add: getWorkgroupSize_def Let_def)
  next
    case False
    then show ?thesis using wnz e un by (simp add: getWorkgroupSize_def Let_def)
  qed
qed

lemma capacity_word:
  assumes "unat (w::u32) = n" and "16 * n * (if x then 2 else 1) < 2 ^ 32"
  shows "unat (if x then push_bit 1 (w * MaxLdsStackEntries) else w * MaxLdsStackEntries)
         = 16 * n * (if x then 2 else 1)"
proof -
  have "unat w * unat (16::u32) < 2 ^ LENGTH(32)" using assms by (simp split: if_splits)
  then have m: "unat (w * 16) = unat w * unat (16::u32)" by (simp only: unat_mult_lem)
  show ?thesis
  proof (cases x)
    case False then show ?thesis using m assms by (simp add: MaxLdsStackEntries_def)
  next
    case True
    have "unat (w * 16) * unat (2::u32) < 2 ^ LENGTH(32)" using assms m True by simp
    then have "unat (w * 16 * 2) = unat (w * 16) * unat (2::u32)" by (simp only: unat_mult_lem)
    moreover have "push_bit 1 (w * 16) = w * 16 * 2" by (simp add: push_bit_eq_mult)
    ultimately show ?thesis using m assms True by (simp add: MaxLdsStackEntries_def)
  qed
qed

text \<open>
  Claim C4, as the code has it. When the module has a stack read, a stack write or a
  stack initialisation, the workgroup size is not 0 and the capacity
  \<open>16 * W * (2 if the extra stack is requested, else 1)\<close> fits in 32 bits,
  \<^verbatim>\<open>createGlobalStack\<close> creates the global \<^verbatim>\<open>LdsStack\<close> with exactly that capacity, where
  \<open>W\<close> is 64 for graphics and the product of the three dimensions otherwise, rounded
  up to a multiple of 32 from major version 11 on. When the module has none of these
  three operations, nothing is created.
\<close>

theorem createGlobalStack_capacity:
  "(list_ex isStackAccess (mBody m) \<longrightarrow> 0 < exactWorkgroupSize ps \<longrightarrow>
      exactCapacity ps m < 2 ^ 32 \<longrightarrow>
      createGlobalStack ps (st, m) =
        Inr (st\<lparr>m_stack := Some (ldsStackGlobal (exactCapacity ps m)),
                m_stackTy := Some (ArrayTy (IntegerTy 32) (exactCapacity ps m))\<rparr>,
             m\<lparr>mGlobals := mGlobals m @ [ldsStackGlobal (exactCapacity ps m)]\<rparr>)) \<and>
   (\<not> list_ex isStackAccess (mBody m) \<longrightarrow> createGlobalStack ps (st, m) = Inr (st, m))"
proof (intro conjI impI)
  assume a: "list_ex isStackAccess (mBody m)" and pos: "0 < exactWorkgroupSize ps"
    and fit: "exactCapacity ps m < 2 ^ 32"
  let ?x = "list_ex requestsExtraStack (mBody m)"
  have "16 * exactWorkgroupSize ps \<le> exactCapacity ps m"
    by (simp add: exactCapacity_def)
  then have "16 * exactWorkgroupSize ps < 2 ^ 32" using fit by linarith
  then obtain w where w: "getWorkgroupSize ps = Inr w" "unat w = exactWorkgroupSize ps"
    using getWorkgroupSize_exact [OF pos] by blast
  have c: "unat (if ?x then push_bit 1 (w * MaxLdsStackEntries) else w * MaxLdsStackEntries)
           = exactCapacity ps m"
    using capacity_word [OF w(2), of ?x] fit by (simp add: exactCapacity_def)
  show "createGlobalStack ps (st, m) =
        Inr (st\<lparr>m_stack := Some (ldsStackGlobal (exactCapacity ps m)),
                m_stackTy := Some (ArrayTy (IntegerTy 32) (exactCapacity ps m))\<rparr>,
             m\<lparr>mGlobals := mGlobals m @ [ldsStackGlobal (exactCapacity ps m)]\<rparr>)"
    using a w(1) c
    by (simp add: createGlobalStack_def needGlobalStack_iff needExtraStack_iff Let_def
          ldsStackGlobal_def)
next
  assume "\<not> list_ex isStackAccess (mBody m)"
  then show "createGlobalStack ps (st, m) = Inr (st, m)"
    by (simp add: createGlobalStack_def needGlobalStack_iff)
qed

lemma exact33: "exactWorkgroupSize (ps_compute 33 11) = 64"
  by (simp add: exactWorkgroupSize_def ps_compute_def roundUpTo32_def)

text \<open>
  The theorem at a workgroup of 33 threads on major version 11 with a read on the extra
  stack: 33 is rounded up to 64, and the capacity is \<open>16 * 64 * 2 = 2048\<close>.
\<close>

theorem createGlobalStack_capacity_witness:
  "list_ex isStackAccess (mBody m_read_extra) \<and>
   exactWorkgroupSize (ps_compute 33 11) = 64 \<and>
   exactCapacity (ps_compute 33 11) m_read_extra = 2048 \<and>
   createGlobalStack (ps_compute 33 11) (newLowerGpuRt, m_read_extra) =
     Inr (newLowerGpuRt\<lparr>m_stack := Some (ldsStackGlobal 2048),
                         m_stackTy := Some (ArrayTy (IntegerTy 32) 2048)\<rparr>,
          m_read_extra\<lparr>mGlobals := [ldsStackGlobal 2048]\<rparr>)"
proof -
  have a: "list_ex isStackAccess (mBody m_read_extra)" by (simp add: m_read_extra_def)
  have c: "exactCapacity (ps_compute 33 11) m_read_extra = 2048"
    by (simp add: exactCapacity_def exact33 m_read_extra_def)
  have g: "mGlobals m_read_extra = []" by (simp add: m_read_extra_def)
  show ?thesis
    using createGlobalStack_capacity [of m_read_extra "ps_compute 33 11" newLowerGpuRt] a c g
    by (simp add: exact33)
qed

text \<open>
  Claim C4 as stated fails twice. A module whose only traversal-stack operation is a
  push gets no global. And with \<open>2 ^ 28\<close> threads the capacity \<open>16 * 2 ^ 28\<close> wraps
  around: the global has 0 entries.
\<close>

theorem createGlobalStack_capacity_counterexample:
  "list_ex isTraversalStackOp (mBody m_push_only) \<and>
   createGlobalStack (ps_compute 64 10) (newLowerGpuRt, m_push_only) = Inr (newLowerGpuRt, m_push_only) \<and>
   list_ex isTraversalStackOp (mBody m_read) \<and>
   exactCapacity (ps_compute (2 ^ 28) 10) m_read = 2 ^ 32 \<and>
   createGlobalStack (ps_compute (2 ^ 28) 10) (newLowerGpuRt, m_read) =
     Inr (newLowerGpuRt\<lparr>m_stack := Some (ldsStackGlobal 0),
                         m_stackTy := Some (ArrayTy (IntegerTy 32) 0)\<rparr>,
          m_read\<lparr>mGlobals := [ldsStackGlobal 0]\<rparr>)"
  by (simp add: m_push_only_def m_read_def createGlobalStack_def needGlobalStack_def
        needExtraStack_def getWorkgroupSize_def ps_compute_def exactCapacity_def
        exactWorkgroupSize_def MaxLdsStackEntries_def ldsStackGlobal_def newLowerGpuRt_def Let_def)

lemma insertBefore_Nil: "insertBefore c [] b = b"
  by (induction b) auto

lemma requestsExtraStack_access: "requestsExtraStack i \<Longrightarrow> isStackAccess i"
  by (cases i rule: isStackAccess.cases) auto

lemma extra_needs_access: "list_ex requestsExtraStack b \<Longrightarrow> list_ex isStackAccess b"
  by (induction b) (auto simp: requestsExtraStack_access)

text \<open>
  Claim C9. The stack-size query is replaced by the constant \<open>16 * workgroupSize\<close>
  whatever the module requests; when the module requests the extra stack, the global
  that \<^verbatim>\<open>createGlobalStack\<close> allocates has twice that many entries.
\<close>

theorem getStackSize_undoubled:
  assumes wg: "getWorkgroupSize ps = Inr w"
  shows "(findCall c (mBody m) = Some (f, GpurtGetStackSizeOp) \<longrightarrow>
            (\<exists>st' m'. visitCall ps c (st, m) = Inr (st', m') \<and>
               mBody m' = replaceAllUsesWith c (ConstInt32 (16 * w)) (mBody m))) \<and>
         (needExtraStack m \<longrightarrow>
            (\<exists>st' m'. createGlobalStack ps (st, m) = Inr (st', m') \<and>
               m_stackTy st' = Some (ArrayTy (IntegerTy 32) (unat (2 * (16 * w))))))"
proof (intro conjI impI)
  assume "findCall c (mBody m) = Some (f, GpurtGetStackSizeOp)"
  then show "\<exists>st' m'. visitCall ps c (st, m) = Inr (st', m') \<and>
               mBody m' = replaceAllUsesWith c (ConstInt32 (16 * w)) (mBody m)"
    using wg
    by (simp add: visitCall_def lowerCall_def insertBefore_Nil MaxLdsStackEntries_def)
next
  assume x: "needExtraStack m"
  then have "list_ex requestsExtraStack (mBody m)" by (simp add: needExtraStack_iff)
  then have "list_ex isStackAccess (mBody m)"
    by (rule extra_needs_access)
  then have g: "needGlobalStack m" by (simp add: needGlobalStack_iff)
  have "push_bit 1 (w * 16) = 2 * (16 * w)" by (simp add: push_bit_eq_mult)
  then show "\<exists>st' m'. createGlobalStack ps (st, m) = Inr (st', m') \<and>
               m_stackTy st' = Some (ArrayTy (IntegerTy 32) (unat (2 * (16 * w))))"
    using wg x g by (simp add: createGlobalStack_def Let_def MaxLdsStackEntries_def)
qed

text \<open>
  The theorem at 64 threads, in a module that reads the extra stack at the queried
  size: the query becomes 1024, the global has 2048 entries.
\<close>

theorem getStackSize_undoubled_witness:
  "getWorkgroupSize (ps_compute 64 10) = Inr 64 \<and>
   findCall 0 (mBody \<lparr>mGlobals = [], mFunctions = [7, 8],
       mBody = [DialectCall 0 7 GpurtGetStackSizeOp,
                DialectCall 1 8 (GpurtStackReadOp (CallResult 0) True)]\<rparr>)
     = Some (7, GpurtGetStackSizeOp) \<and>
   needExtraStack \<lparr>mGlobals = [], mFunctions = [7, 8],
       mBody = [DialectCall 0 7 GpurtGetStackSizeOp,
                DialectCall 1 8 (GpurtStackReadOp (CallResult 0) True)]\<rparr> \<and>
   (\<exists>st' m'. visitCall (ps_compute 64 10) 0 (newLowerGpuRt,
       \<lparr>mGlobals = [], mFunctions = [7, 8],
        mBody = [DialectCall 0 7 GpurtGetStackSizeOp,
                 DialectCall 1 8 (GpurtStackReadOp (CallResult 0) True)]\<rparr>) = Inr (st', m') \<and>
      mBody m' = [DialectCall 0 7 GpurtGetStackSizeOp,
                  DialectCall 1 8 (GpurtStackReadOp (ConstInt32 1024) True)]) \<and>
   (\<exists>st' m'. createGlobalStack (ps_compute 64 10) (newLowerGpuRt,
       \<lparr>mGlobals = [], mFunctions = [7, 8],
        mBody = [DialectCall 0 7 GpurtGetStackSizeOp,
                 DialectCall 1 8 (GpurtStackReadOp (CallResult 0) True)]\<rparr>) = Inr (st', m') \<and>
      m_stackTy st' = Some (ArrayTy (IntegerTy 32) 2048))"
proof -
  let ?m = "\<lparr>mGlobals = [], mFunctions = [7, 8],
       mBody = [DialectCall 0 7 GpurtGetStackSizeOp,
                DialectCall 1 8 (GpurtStackReadOp (CallResult 0) True)]\<rparr>"
  have f: "findCall 0 (mBody ?m) = Some (7, GpurtGetStackSizeOp)" by simp
  have x: "needExtraStack ?m" by (simp add: needExtraStack_def)
  show ?thesis
    using getStackSize_undoubled [OF wg64, of 0 ?m 7 newLowerGpuRt] f x wg64
    by (simp add: replaceAllUsesWith_def)
qed

lemma callIds_isCall: "c \<in> set (callIds b) \<longleftrightarrow> (\<exists>i \<in> set b. isCall c i)"
  by (induction b rule: callIds.induct) auto

lemma findCall_head: "callIds b = c # cs \<Longrightarrow> \<exists>f op. findCall c b = Some (f, op)"
  by (induction b rule: callIds.induct) auto

lemma callIds_empty_access: "callIds b = [] \<Longrightarrow> \<not> list_ex isStackAccess b"
  by (induction b rule: callIds.induct) auto

lemma createGlobalStack_body:
  "createGlobalStack ps (st, m) = Inr (st', m') \<Longrightarrow>
   mBody m' = mBody m \<and> m_callsToLower st' = m_callsToLower st"
  by (auto simp: createGlobalStack_def Let_def split: if_splits sum.splits)

lemma visitCall_lowers:
  assumes "visitCall ps c sm = Inr sm'" and "findCall c (mBody (snd sm)) = Some (f, op)"
  shows "m_callsToLower (fst sm') = m_callsToLower (fst sm) @ [c]"
  using assms
  by (cases sm) (auto simp: visitCall_def lowerCall_def split: sum.splits prod.splits)

lemma visitCall_mono:
  assumes "visitCall ps c sm = Inr sm'"
  shows "set (m_callsToLower (fst sm)) \<subseteq> set (m_callsToLower (fst sm'))"
  using assms
  by (cases sm) (auto simp: visitCall_def lowerCall_def split: sum.splits prod.splits option.splits)

lemma visitAll_mono:
  "visitAll ps cs sm = Inr sm' \<Longrightarrow>
   set (m_callsToLower (fst sm)) \<subseteq> set (m_callsToLower (fst sm'))"
proof (induction cs arbitrary: sm)
  case Nil
  then show ?case by simp
next
  case (Cons c cs)
  then obtain sm1 where s: "visitCall ps c sm = Inr sm1" "visitAll ps cs sm1 = Inr sm'"
    by (auto split: sum.splits)
  show ?case using visitCall_mono [OF s(1)] Cons.IH [OF s(2)] by blast
qed

lemma eraseCalls_none: "c \<in> set cs \<Longrightarrow> \<forall>i \<in> set (eraseCalls cs b). \<not> isCall c i"
  by (auto simp: eraseCalls_def list_ex_iff)

text \<open>
  Claim C10. A run of a freshly constructed pass that returns reports all analyses
  preserved exactly when it lowered at least one call, which is exactly when the module
  had a dialect call, and then the module has changed; it reports none preserved exactly
  when it lowered no call, and then the module is as it was.
\<close>

theorem run_preserved_analyses:
  assumes r: "run ps newLowerGpuRt m = Inr (pa, st', m')"
  shows "(pa = PreservedAll \<longleftrightarrow> m_callsToLower st' \<noteq> []) \<and>
         (pa = PreservedNone \<longleftrightarrow> m_callsToLower st' = []) \<and>
         (m_callsToLower st' \<noteq> [] \<longleftrightarrow> callIds (mBody m) \<noteq> []) \<and>
         (m_callsToLower st' \<noteq> [] \<longrightarrow> m' \<noteq> m) \<and>
         (m_callsToLower st' = [] \<longrightarrow> m' = m)"
proof -
  from r obtain st1 m1 where c: "createGlobalStack ps (newLowerGpuRt, m) = Inr (st1, m1)"
    by (auto simp: run_def split: sum.splits)
  from r c obtain st2 m2 where v: "visitAll ps (callIds (mBody m1)) (st1, m1) = Inr (st2, m2)"
    by (auto simp: run_def split: sum.splits)
  have b1: "mBody m1 = mBody m" and l1: "m_callsToLower st1 = []"
    using createGlobalStack_body [OF c] by (simp_all add: newLowerGpuRt_def)
  have st': "st' = st2"
    and pa: "pa = (if m_callsToLower st2 \<noteq> [] then PreservedAll else PreservedNone)"
    and m': "m' = m2\<lparr>mBody := eraseCalls (m_callsToLower st2) (mBody m2),
                     mFunctions := filter (\<lambda>f. f \<notin> set (m_funcsToLower st2)) (mFunctions m2)\<rparr>"
    using r c v by (auto simp add: run_def Let_def)
  show ?thesis
  proof (cases "callIds (mBody m)")
    case Nil
    then have "\<not> list_ex isStackAccess (mBody m)" by (rule callIds_empty_access)
    then have "createGlobalStack ps (newLowerGpuRt, m) = Inr (newLowerGpuRt, m)"
      by (simp add: createGlobalStack_def needGlobalStack_iff)
    then have e: "st1 = newLowerGpuRt" "m1 = m" using c by simp_all
    then have "st2 = newLowerGpuRt" "m2 = m" using v Nil by simp_all
    then show ?thesis using st' pa m' Nil
      by (simp add: newLowerGpuRt_def eraseCalls_def)
  next
    case (Cons c0 cs)
    then obtain f op where f: "findCall c0 (mBody m1) = Some (f, op)"
      using findCall_head [of "mBody m"] b1 by auto
    from v Cons b1 obtain sm1 where s:
      "visitCall ps c0 (st1, m1) = Inr sm1" "visitAll ps cs sm1 = Inr (st2, m2)"
      by (auto split: sum.splits)
    have "c0 \<in> set (m_callsToLower (fst sm1))"
      using visitCall_lowers [OF s(1)] f by simp
    then have in2: "c0 \<in> set (m_callsToLower st2)"
      using visitAll_mono [OF s(2)] by auto
    then have ne: "m_callsToLower st2 \<noteq> []" by auto
    have "\<forall>i \<in> set (mBody m'). \<not> isCall c0 i"
      using eraseCalls_none [OF in2] m' by simp
    moreover have "\<exists>i \<in> set (mBody m). isCall c0 i"
      using Cons callIds_isCall [of c0 "mBody m"] by simp
    ultimately have "m' \<noteq> m" by auto
    then show ?thesis using st' pa ne Cons by simp
  qed
qed

text \<open>
  The theorem at a module with one stack-size query (lowered, all preserved) and at a
  module with no dialect call (untouched, none preserved).
\<close>

theorem run_preserved_analyses_witness:
  "run (ps_compute 64 10) newLowerGpuRt
       \<lparr>mGlobals = [], mFunctions = [7], mBody = [DialectCall 0 7 GpurtGetStackSizeOp,
                                                  OtherInstr 1 [CallResult 0]]\<rparr>
     = Inr (PreservedAll,
            newLowerGpuRt\<lparr>m_callsToLower := [0], m_funcsToLower := [7]\<rparr>,
            \<lparr>mGlobals = [], mFunctions = [], mBody = [OtherInstr 1 [ConstInt32 1024]]\<rparr>) \<and>
   callIds [DialectCall 0 7 GpurtGetStackSizeOp, OtherInstr 1 [CallResult 0]] \<noteq> [] \<and>
   run (ps_compute 64 10) newLowerGpuRt
       \<lparr>mGlobals = [], mFunctions = [7], mBody = [OtherInstr 1 [OperandV 0]]\<rparr>
     = Inr (PreservedNone, newLowerGpuRt,
            \<lparr>mGlobals = [], mFunctions = [7], mBody = [OtherInstr 1 [OperandV 0]]\<rparr>)"
proof -
  let ?m = "\<lparr>mGlobals = [], mFunctions = [7], mBody = [DialectCall 0 7 GpurtGetStackSizeOp,
                                                  OtherInstr 1 [CallResult 0]]\<rparr>"
  let ?n = "\<lparr>mGlobals = [], mFunctions = [7], mBody = [OtherInstr 1 [OperandV 0]]\<rparr>"
  have a: "run (ps_compute 64 10) newLowerGpuRt ?m
     = Inr (PreservedAll,
            newLowerGpuRt\<lparr>m_callsToLower := [0], m_funcsToLower := [7]\<rparr>,
            \<lparr>mGlobals = [], mFunctions = [], mBody = [OtherInstr 1 [ConstInt32 1024]]\<rparr>)"
    by (simp add: run_def createGlobalStack_def needGlobalStack_def visitCall_def lowerCall_def
          wg64 MaxLdsStackEntries_def replaceAllUsesWith_def eraseCalls_def newLowerGpuRt_def)
  have b: "run (ps_compute 64 10) newLowerGpuRt ?n = Inr (PreservedNone, newLowerGpuRt, ?n)"
    by (simp add: run_def createGlobalStack_def needGlobalStack_def eraseCalls_def
          newLowerGpuRt_def)
  show ?thesis
    using run_preserved_analyses [OF a] run_preserved_analyses [OF b] a b by simp
qed


section \<open>Properties of the continuation helpers\<close>

text \<open>
  Claim C7. For a 32-bit offset: in Scratch mode the result is the offset turned into a
  pointer of the scratch address space; in Global mode, with the base function in the
  library, it is the 64-bit base turned into a byte pointer and indexed by the offset;
  with no addressing mode in the metadata it is the fatal error. The function fails in
  one more case than the missing metadata: in Global mode, when the library has no
  function \<^verbatim>\<open>_cont_GetContinuationStackGlobalMemBase\<close> without parameters and with a 64-bit
  integer result, an assertion stops it. \<^verbatim>\<open>report_fatal_error\<close> itself is reached exactly
  when the metadata has no addressing mode.
\<close>

theorem continuationStackOffsetToPtr_modes:
  assumes i32: "typeOf Offset = IntegerTy 32"
  shows
    "(stackAddrspaceMD M = Some Scratch \<longrightarrow>
        continuationStackOffsetToPtr asNum typeOf M lib Offset =
          Inr (CreateIntToPtr Offset (PointerTy (asNum Scratch)))) \<and>
     (stackAddrspaceMD M = Some Global \<longrightarrow>
        getFunction lib ''_cont_GetContinuationStackGlobalMemBase'' =
          Some \<lparr>fdParams = [], fdReturn = IntegerTy 64\<rparr> \<longrightarrow>
        continuationStackOffsetToPtr asNum typeOf M lib Offset =
          Inr (CreateGEP (IntegerTy 8)
                 (CreateIntToPtr (InlineCall ''_cont_GetContinuationStackGlobalMemBase'' [])
                    (PointerTy (asNum Global)))
                 [Offset])) \<and>
     (stackAddrspaceMD M = None \<longrightarrow>
        continuationStackOffsetToPtr asNum typeOf M lib Offset =
          Inl (FatalError ''Missing stack addrspace metadata!'')) \<and>
     (stackAddrspaceMD M = Some Global \<longrightarrow>
        getFunction lib ''_cont_GetContinuationStackGlobalMemBase'' = None \<longrightarrow>
        continuationStackOffsetToPtr asNum typeOf M lib Offset =
          Inl (AssertionFailed ''Could not find GetContinuationStackGlobalMemBase function'')) \<and>
     ((\<exists>e. continuationStackOffsetToPtr asNum typeOf M lib Offset = Inl e) \<longleftrightarrow>
        stackAddrspaceMD M = None \<or>
        (stackAddrspaceMD M = Some Global \<and>
         getFunction lib ''_cont_GetContinuationStackGlobalMemBase'' \<noteq>
           Some \<lparr>fdParams = [], fdReturn = IntegerTy 64\<rparr>)) \<and>
     ((\<exists>m. continuationStackOffsetToPtr asNum typeOf M lib Offset = Inl (FatalError m)) \<longleftrightarrow>
        stackAddrspaceMD M = None)"
proof -
  let ?r = "continuationStackOffsetToPtr asNum typeOf M lib Offset"
  let ?name = "''_cont_GetContinuationStackGlobalMemBase''"
  let ?decl = "\<lparr>fdParams = [], fdReturn = IntegerTy 64\<rparr>"
  have scratch: "stackAddrspaceMD M = Some Scratch \<Longrightarrow>
        ?r = Inr (CreateIntToPtr Offset (PointerTy (asNum Scratch)))"
    using i32 by (simp add: continuationStackOffsetToPtr_def)
  have global: "stackAddrspaceMD M = Some Global \<Longrightarrow> getFunction lib ?name = Some ?decl \<Longrightarrow>
        ?r = Inr (CreateGEP (IntegerTy 8)
                 (CreateIntToPtr (InlineCall ?name []) (PointerTy (asNum Global))) [Offset])"
    using i32
    by (simp add: continuationStackOffsetToPtr_def getContinuationStackGlobalMemBase_def Let_def)
  have none: "stackAddrspaceMD M = None \<Longrightarrow>
        ?r = Inl (FatalError ''Missing stack addrspace metadata!'')"
    using i32 by (simp add: continuationStackOffsetToPtr_def)
  have missing: "stackAddrspaceMD M = Some Global \<Longrightarrow> getFunction lib ?name = None \<Longrightarrow>
        ?r = Inl (AssertionFailed ''Could not find GetContinuationStackGlobalMemBase function'')"
    using i32
    by (simp add: continuationStackOffsetToPtr_def getContinuationStackGlobalMemBase_def)
  have other: "stackAddrspaceMD M = Some Global \<Longrightarrow> getFunction lib ?name \<noteq> Some ?decl \<Longrightarrow>
        \<exists>a. ?r = Inl (AssertionFailed a)"
    using i32
    by (cases "getFunction lib ?name")
       (auto simp: continuationStackOffsetToPtr_def getContinuationStackGlobalMemBase_def)
  have fails: "(\<exists>e. ?r = Inl e) \<longleftrightarrow>
        stackAddrspaceMD M = None \<or>
        (stackAddrspaceMD M = Some Global \<and> getFunction lib ?name \<noteq> Some ?decl)"
  proof (cases "stackAddrspaceMD M")
    case None
    then show ?thesis using none by simp
  next
    case (Some a)
    show ?thesis
    proof (cases a)
      case Scratch
      then show ?thesis using Some scratch by simp
    next
      case Global
      show ?thesis
      proof (cases "getFunction lib ?name = Some ?decl")
        case True
        then show ?thesis using Some Global global by simp
      next
        case False
        then show ?thesis using Some Global other by auto
      qed
    qed
  qed
  have fatal: "(\<exists>m. ?r = Inl (FatalError m)) \<longleftrightarrow> stackAddrspaceMD M = None"
  proof (cases "stackAddrspaceMD M")
    case None
    then show ?thesis using none by simp
  next
    case (Some a)
    show ?thesis
    proof (cases a)
      case Scratch
      then show ?thesis using Some scratch by simp
    next
      case Global
      show ?thesis
      proof (cases "getFunction lib ?name = Some ?decl")
        case True
        then show ?thesis using Some Global global by simp
      next
        case False
        then show ?thesis using Some Global other by auto
      qed
    qed
  qed
  show ?thesis
    using scratch global none missing fails fatal by blast
qed

text \<open>The theorem at the three settings of the metadata, and in Global mode with an empty library.\<close>

theorem continuationStackOffsetToPtr_modes_witness:
  "continuationStackOffsetToPtr (\<lambda>a. case a of Scratch \<Rightarrow> 21 | Global \<Rightarrow> 22) (\<lambda>v. IntegerTy 32)
      \<lparr>stackAddrspaceMD = Some Scratch\<rparr> baseLibrary (OperandV 0)
     = Inr (CreateIntToPtr (OperandV 0) (PointerTy 21)) \<and>
   continuationStackOffsetToPtr (\<lambda>a. case a of Scratch \<Rightarrow> 21 | Global \<Rightarrow> 22) (\<lambda>v. IntegerTy 32)
      \<lparr>stackAddrspaceMD = Some Global\<rparr> baseLibrary (OperandV 0)
     = Inr (CreateGEP (IntegerTy 8)
              (CreateIntToPtr (InlineCall ''_cont_GetContinuationStackGlobalMemBase'' []) (PointerTy 22))
              [OperandV 0]) \<and>
   continuationStackOffsetToPtr (\<lambda>a. case a of Scratch \<Rightarrow> 21 | Global \<Rightarrow> 22) (\<lambda>v. IntegerTy 32)
      \<lparr>stackAddrspaceMD = None\<rparr> baseLibrary (OperandV 0)
     = Inl (FatalError ''Missing stack addrspace metadata!'') \<and>
   continuationStackOffsetToPtr (\<lambda>a. case a of Scratch \<Rightarrow> 21 | Global \<Rightarrow> 22) (\<lambda>v. IntegerTy 32)
      \<lparr>stackAddrspaceMD = Some Global\<rparr> [] (OperandV 0)
     = Inl (AssertionFailed ''Could not find GetContinuationStackGlobalMemBase function'')"
proof -
  let ?as = "\<lambda>a. case a of Scratch \<Rightarrow> 21 | Global \<Rightarrow> (22::nat)"
  let ?ty = "\<lambda>v::val. IntegerTy 32"
  have t: "?ty (OperandV 0) = IntegerTy 32" by simp
  have g: "getFunction baseLibrary ''_cont_GetContinuationStackGlobalMemBase'' =
          Some \<lparr>fdParams = [], fdReturn = IntegerTy 64\<rparr>"
    by (simp add: getFunction_def baseLibrary_def)
  have e: "getFunction [] ''_cont_GetContinuationStackGlobalMemBase'' = None"
    by (simp add: getFunction_def)
  show ?thesis
    using continuationStackOffsetToPtr_modes [OF t, of "\<lparr>stackAddrspaceMD = Some Scratch\<rparr>" ?as baseLibrary]
      continuationStackOffsetToPtr_modes [OF t, of "\<lparr>stackAddrspaceMD = Some Global\<rparr>" ?as baseLibrary]
      continuationStackOffsetToPtr_modes [OF t, of "\<lparr>stackAddrspaceMD = None\<rparr>" ?as baseLibrary]
      continuationStackOffsetToPtr_modes [OF t, of "\<lparr>stackAddrspaceMD = Some Global\<rparr>" ?as "[]"]
      g e
    by simp
qed

text \<open>
  Claim C7 as stated fails: the metadata gives the Global mode, and yet the function
  does not return a pointer, because the library lacks the base function.
\<close>

theorem continuationStackOffsetToPtr_missing_base_counterexample:
  "stackAddrspaceMD \<lparr>stackAddrspaceMD = Some Global\<rparr> = Some Global \<and>
   continuationStackOffsetToPtr (\<lambda>a. case a of Scratch \<Rightarrow> 21 | Global \<Rightarrow> 22) (\<lambda>v. IntegerTy 32)
      \<lparr>stackAddrspaceMD = Some Global\<rparr> [] (OperandV 0)
     = Inl (AssertionFailed ''Could not find GetContinuationStackGlobalMemBase function'')"
  by (simp add: continuationStackOffsetToPtr_def getContinuationStackGlobalMemBase_def
        getFunction_def)

text \<open>
  Claim C6. When \<^verbatim>\<open>replaceIntrinsicCall\<close> replaces a call whose table entry accesses hit
  data, the state accessor is \<^verbatim>\<open>_cont_GetCandidateState\<close> in any-hit and intersection
  shaders and \<^verbatim>\<open>_cont_GetCommittedState\<close> in every other stage; its result is stored to an
  alloca of the accessor's return type, and that alloca is the second argument of the
  new call, after the system data.
\<close>

theorem replaceIntrinsicCall_hit_data_accessor:
  assumes ok: "replaceIntrinsicCall typeOf SystemDataTy SystemData Kind Call lib = Inr (Some r)"
    and entry: "findIntrImplEntryByIntrinsicCall Call = Inr (Some e)"
    and hit: "AccessesHitData e"
  shows "\<exists>accessor F sd hsd rest.
      accessor = (if Kind = AnyHit \<or> Kind = Intersection
                  then ''_cont_GetCandidateState'' else ''_cont_GetCommittedState'') \<and>
      getFunction lib accessor = Some F \<and>
      irAllocas r = [CreateAlloca (fdReturn F)] \<and>
      irStores r = [(InlineCall accessor [hsd], CreateAlloca (fdReturn F))] \<and>
      irNewCall r = CreateCall (''_cont_'' @ Name e) (sd # CreateAlloca (fdReturn F) # rest)"
proof -
  from ok entry hit obtain accessor F where
    acc: "getHitDataAccessor Kind lib = Inr (accessor, F)"
    by (auto simp: replaceIntrinsicCall_def Let_def split: sum.splits option.splits if_splits prod.splits)
  have a: "accessor = (if Kind = AnyHit \<or> Kind = Intersection
                  then ''_cont_GetCandidateState'' else ''_cont_GetCommittedState'')"
    and f: "getFunction lib accessor = Some F"
    using acc by (auto simp: getHitDataAccessor_def split: if_splits option.splits)
  from ok entry hit acc obtain sd hsd rest where
    "r = \<lparr>irAllocas = [CreateAlloca (fdReturn F)],
          irStores = [(InlineCall accessor [hsd], CreateAlloca (fdReturn F))],
          irNewCall = CreateCall (''_cont_'' @ Name e) (sd # CreateAlloca (fdReturn F) # rest)\<rparr>"
    by (auto simp: replaceIntrinsicCall_def Let_def split: sum.splits option.splits if_splits)
  then show ?thesis using a f by auto
qed

lemma hitKind_intersection:
  "replaceIntrinsicCall (\<lambda>v. VoidTy) (StructTy [StructTy [IntegerTy 32]]) (OperandV 0)
      Intersection hitKindCall hitLibrary =
   Inr (Some \<lparr>irAllocas = [CreateAlloca (StructTy [FloatTy])],
               irStores = [(InlineCall ''_cont_GetCandidateState'' [OperandV 0],
                            CreateAlloca (StructTy [FloatTy]))],
               irNewCall = CreateCall ''_cont_HitKind''
                 [CreateInBoundsGEP (StructTy [StructTy [IntegerTy 32]]) (OperandV 0)
                    [ConstInt32 0, ConstInt32 0],
                  CreateAlloca (StructTy [FloatTy])]\<rparr>)"
  by (simp add: replaceIntrinsicCall_def findIntrImplEntryByIntrinsicCall_def hitKindCall_def
        hitLibrary_def getFunction_def getFuncArgPtrElementType_def getDXILSystemData_def
        getHitDataAccessor_def Let_def)

lemma hitKind_closestHit:
  "replaceIntrinsicCall (\<lambda>v. VoidTy) (StructTy [StructTy [IntegerTy 32]]) (OperandV 0)
      ClosestHit hitKindCall hitLibrary =
   Inr (Some \<lparr>irAllocas = [CreateAlloca (StructTy [FloatTy, FloatTy])],
               irStores = [(InlineCall ''_cont_GetCommittedState'' [OperandV 0],
                            CreateAlloca (StructTy [FloatTy, FloatTy]))],
               irNewCall = CreateCall ''_cont_HitKind''
                 [CreateInBoundsGEP (StructTy [StructTy [IntegerTy 32]]) (OperandV 0)
                    [ConstInt32 0, ConstInt32 0],
                  CreateAlloca (StructTy [FloatTy, FloatTy])]\<rparr>)"
  by (simp add: replaceIntrinsicCall_def findIntrImplEntryByIntrinsicCall_def hitKindCall_def
        hitLibrary_def getFunction_def getFuncArgPtrElementType_def getDXILSystemData_def
        getHitDataAccessor_def Let_def)

text \<open>The theorem at a hit-kind query, in an intersection shader and in a closest-hit shader.\<close>

theorem replaceIntrinsicCall_hit_data_accessor_witness:
  "findIntrImplEntryByIntrinsicCall hitKindCall =
     Inr (Some \<lparr>Name = ''HitKind'', AccessesHitData = True\<rparr>) \<and>
   (\<exists>r. replaceIntrinsicCall (\<lambda>v. VoidTy) (StructTy [StructTy [IntegerTy 32]]) (OperandV 0)
          Intersection hitKindCall hitLibrary = Inr (Some r) \<and>
        (\<exists>F hsd. getFunction hitLibrary ''_cont_GetCandidateState'' = Some F \<and>
           irStores r = [(InlineCall ''_cont_GetCandidateState'' [hsd], CreateAlloca (fdReturn F))])) \<and>
   (\<exists>r. replaceIntrinsicCall (\<lambda>v. VoidTy) (StructTy [StructTy [IntegerTy 32]]) (OperandV 0)
          ClosestHit hitKindCall hitLibrary = Inr (Some r) \<and>
        (\<exists>F hsd. getFunction hitLibrary ''_cont_GetCommittedState'' = Some F \<and>
           irStores r = [(InlineCall ''_cont_GetCommittedState'' [hsd], CreateAlloca (fdReturn F))]))"
proof -
  have e: "findIntrImplEntryByIntrinsicCall hitKindCall =
     Inr (Some \<lparr>Name = ''HitKind'', AccessesHitData = True\<rparr>)"
    by (simp add: findIntrImplEntryByIntrinsicCall_def hitKindCall_def)
  have h: "AccessesHitData \<lparr>Name = ''HitKind'', AccessesHitData = True\<rparr>" by simp
  show ?thesis
    using replaceIntrinsicCall_hit_data_accessor [OF hitKind_intersection e h]
      replaceIntrinsicCall_hit_data_accessor [OF hitKind_closestHit e h]
      e hitKind_intersection hitKind_closestHit
    by auto
qed

lemma walkStep_declines:
  assumes "Worklist s = rest @ [(use, off)]" and "declinesAt f use"
  shows "walkStep DL f s = GiveUp"
  using assms
  by (cases use)
     (auto simp: walkStep_def declinesAt_def split: option.splits Inst.splits)

lemma walk_reaches: "walkReaches DL f s s1 \<Longrightarrow> walk DL f s = walk DL f s1"
proof (induction rule: walkReaches.induct)
  case (start s)
  then show ?case by simp
next
  case (step s s1 s2)
  have "walk DL f s1 = walk DL f s2"
    using step.hyps(2,3) by (subst walk.simps) simp
  then show ?case using step.IH by simp
qed

text \<open>
  Claim C3. When the walk from the frame pointer comes to a use at which it gives up,
  \<^verbatim>\<open>forwardContinuationFrameStoreToLoad\<close> returns, without an error, and the function is
  as it was.
\<close>

theorem forward_gives_up_unchanged:
  assumes reach: "walkReaches DL f (initialForwardState f FramePtr) s"
    and top: "Worklist s = rest @ [(use, off)]"
    and bad: "declinesAt f use"
  shows "forwardContinuationFrameStoreToLoad DL DT f FramePtr = Some (Inr f)"
proof -
  have "walkStep DL f s = GiveUp" using top bad by (rule walkStep_declines)
  moreover have "Worklist s \<noteq> []" using top by simp
  ultimately have "walk DL f s = Some GiveUp" by (subst walk.simps) simp
  then have "walk DL f (initialForwardState f FramePtr) = Some GiveUp"
    using walk_reaches [OF reach] by simp
  then show ?thesis by (simp add: forwardContinuationFrameStoreToLoad_def)
qed

text \<open>
  Claim C8, as the code has it. A rewrite to the address space the pointer already has
  is rejected by the assertion at the start of \<^verbatim>\<open>replaceAllPointerUses\<close>: the function is
  not rewritten a second time.
\<close>

theorem replaceAllPointerUses_same_addrspace_rejected:
  assumes "getType f OldPointerValue = PointerTy a" and "getType f NewPointerValue = PointerTy a"
  shows "replaceAllPointerUses f OldPointerValue NewPointerValue ToBeRemoved =
           Some (Inl (AssertionFailed ''NewAS != OldPtrTy->getAddressSpace()''))"
  using assms by (simp add: replaceAllPointerUses_def)



















lemma fnArgs_eraseFromParent [simp]: "fnArgs (eraseFromParent i g) = fnArgs g"
  by (simp add: eraseFromParent_def)

lemma fnArgs_replaceUses [simp]: "fnArgs (replaceUses old new g) = fnArgs g"
  by (simp add: replaceUses_def)






















































text \<open>
  A load of offset 0 that reads beyond the stored bytes stops the pass at an assertion,
  whatever dominates what.
\<close>

lemma forward_wide_load_stops:
  "forwardContinuationFrameStoreToLoad exampleDL DT wideLoad (ArgV 0) =
     Some (Inl (AssertionFailed ''!IntersectionsRight.empty()''))"
  by (simp add: forwardContinuationFrameStoreToLoad_def initialForwardState_def usesOf_def
        wideLoad_def walk.simps walkStep_def findInst_def getType_def exampleDL_def
        pushLoad_def forwardOffset_def forwardLoad_def getContaining_def upper_bound_def Let_def
        replaceUses_def eraseFromParent_def)

text \<open>
  The theorem at a frame with a volatile load behind an address computation, reached in
  the third turn of the walk.
\<close>

theorem forward_gives_up_unchanged_witness:
  "walkReaches exampleDL volatileLoad (initialForwardState volatileLoad (ArgV 0))
     \<lparr>Worklist = [((1, ArgV 0), 0), ((3, InstV 2), 4)], OffsetLoadMap = [(0, [4])],
      SortedStores = [], StoreIntervals = []\<rparr> \<and>
   declinesAt volatileLoad (3, InstV 2) \<and>
   forwardContinuationFrameStoreToLoad exampleDL (\<lambda>a b. True) volatileLoad (ArgV 0) =
     Some (Inr volatileLoad)"
proof -
  let ?s0 = "initialForwardState volatileLoad (ArgV 0)"
  let ?s1 = "\<lparr>Worklist = [((1, ArgV 0), 0), ((2, ArgV 0), 0)], OffsetLoadMap = [(0, [4])],
      SortedStores = [], StoreIntervals = []\<rparr>"
  let ?s2 = "\<lparr>Worklist = [((1, ArgV 0), 0), ((3, InstV 2), 4)], OffsetLoadMap = [(0, [4])],
      SortedStores = [], StoreIntervals = []\<rparr>"
  have w0: "Worklist ?s0 \<noteq> []"
    by (simp add: initialForwardState_def usesOf_def volatileLoad_def)
  have st0: "walkStep exampleDL volatileLoad ?s0 = Continue ?s1"
    by (simp add: initialForwardState_def usesOf_def volatileLoad_def walkStep_def findInst_def
          pushLoad_def)
  have w1: "Worklist ?s1 \<noteq> []" by simp
  have st1: "walkStep exampleDL volatileLoad ?s1 = Continue ?s2"
    by (simp add: usesOf_def volatileLoad_def walkStep_def findInst_def)
  have r: "walkReaches exampleDL volatileLoad ?s0 ?s2"
    by (rule walkReaches.step [OF walkReaches.step [OF walkReaches.start w0 st0] w1 st1])
  have t: "Worklist ?s2 = [((1, ArgV 0), 0)] @ [((3, InstV 2), 4)]" by simp
  have d: "declinesAt volatileLoad (3, InstV 2)"
    by (simp add: declinesAt_def volatileLoad_def findInst_def)
  show ?thesis
    using forward_gives_up_unchanged [OF r t d, of "\<lambda>a b. True"] r d by simp
qed

text \<open>The theorem at a function that has been rewritten once.\<close>

theorem replaceAllPointerUses_same_addrspace_witness:
  "getType afterRewrite (ArgV 0) = PointerTy 32 \<and> getType afterRewrite (ArgV 1) = PointerTy 32 \<and>
   replaceAllPointerUses afterRewrite (ArgV 0) (ArgV 1) [4] =
     Some (Inl (AssertionFailed ''NewAS != OldPtrTy->getAddressSpace()''))"
proof -
  have a: "getType afterRewrite (ArgV 0) = PointerTy 32"
    and b: "getType afterRewrite (ArgV 1) = PointerTy 32"
    by (simp_all add: getType_def afterRewrite_def)
  show ?thesis
    using replaceAllPointerUses_same_addrspace_rejected [OF a b, of "[4]"] a b by simp
qed

text \<open>
  Claim C8 as stated fails: the first rewrite gives \<open>afterRewrite\<close>; the same rewrite a
  second time does not give back \<open>afterRewrite\<close>, or any function: it stops at the
  assertion.
\<close>

theorem replaceAllPointerUses_second_rewrite_counterexample:
  "replaceAllPointerUses framePtrUsers (ArgV 0) (ArgV 1) [] = Some (Inr (afterRewrite, [4])) \<and>
   replaceAllPointerUses afterRewrite (ArgV 0) (ArgV 1) [4] \<noteq> Some (Inr (afterRewrite, [4])) \<and>
   (\<forall>r. replaceAllPointerUses afterRewrite (ArgV 0) (ArgV 1) [4] \<noteq> Some (Inr r))"
  by (simp add: replaceAllPointerUses_def framePtrUsers_def afterRewrite_def getType_def
        mutateType_def usersOf_def usesOf_def replaceUses_def pointerUsesLoop.simps
        pointerUsesStep_def findInst_def eraseFromParent_def Let_def)


end
